theory Spec2Isabelle
  imports Main
begin

section \<open>Server: presence registry and signaling router (server/index.cjs)\<close>

text \<open>
  The socket handlers of \<^verbatim>\<open>server/index.cjs\<close> share two module-level maps:
  \<^verbatim>\<open>onlineUsers\<close> (userId to a JavaScript \<^verbatim>\<open>Set\<close> of socket ids) and
  \<^verbatim>\<open>userSockets\<close> (socket id to userId). A JavaScript \<^verbatim>\<open>Set\<close> iterates in
  insertion order and \<^verbatim>\<open>Array.from(set)[0]\<close> is its oldest member, so a set of
  socket ids is a duplicate-free list here. User ids and socket ids are strings;
  the only falsy string is the empty one.
\<close>

type_synonym userId = string
type_synonym socketId = string

definition truthy :: "string \<Rightarrow> bool" where
  "truthy v = (v \<noteq> [])"

definition set_add :: "'a \<Rightarrow> 'a list \<Rightarrow> 'a list" where
  "set_add x xs = (if x \<in> set xs then xs else xs @ [x])"

definition set_delete :: "'a \<Rightarrow> 'a list \<Rightarrow> 'a list" where
  "set_delete x xs = filter (\<lambda>y. y \<noteq> x) xs"

record server_state =
  onlineUsers :: "userId \<rightharpoonup> socketId list"
  userSockets :: "socketId \<rightharpoonup> userId"

definition server_init :: server_state where
  "server_init = \<lparr> onlineUsers = Map.empty, userSockets = Map.empty \<rparr>"

text \<open>
  The payload of a call signaling event is forwarded as received; the server reads
  only its \<^verbatim>\<open>to\<close> field. The remaining fields are kept as they travel.
\<close>

record call_data =
  to_user :: userId
  from_user :: userId
  chat_id :: string
  body :: string

datatype presence = Online | Offline

datatype message =
    User_status_change userId presence
  | Msg_webrtc_offer call_data
  | Msg_webrtc_answer call_data
  | Msg_webrtc_ice_candidate call_data
  | Msg_webrtc_call_ended call_data
  | Call_failed string

text \<open>
  What a handler sends is recorded as the list of its emit calls:
  \<^verbatim>\<open>io.to(id).emit\<close> is \<open>To_socket id\<close>, \<^verbatim>\<open>socket.emit\<close> is \<open>To_sender\<close> of the
  handling socket, \<^verbatim>\<open>socket.broadcast.emit\<close> is \<open>Broadcast_from\<close> of the handling
  socket (every connection but that one).
\<close>

datatype target = To_socket socketId | To_sender socketId | Broadcast_from socketId

type_synonym emission = "target \<times> message"

text \<open>
  \<^verbatim>\<open>user_join\<close>: the maps are updated before the first \<^verbatim>\<open>await\<close>, and the size
  test is taken right after. The status broadcast follows the awaited database
  write inside the same \<^verbatim>\<open>try\<close>; \<open>db_ok\<close> says whether that write resolved
  (a rejected write goes to the \<^verbatim>\<open>catch\<close>, which only logs).
\<close>

definition user_join ::
  "socketId \<Rightarrow> userId \<Rightarrow> bool \<Rightarrow> server_state \<Rightarrow> server_state \<times> emission list" where
  "user_join sid uid db_ok st =
     (let ou1 = (if onlineUsers st uid = None then (onlineUsers st)(uid \<mapsto> []) else onlineUsers st);
          conns = set_add sid (the (ou1 uid));
          ou2 = ou1(uid \<mapsto> conns);
          us2 = (userSockets st)(sid \<mapsto> uid);
          userSocketCount = length conns
      in (\<lparr> onlineUsers = ou2, userSockets = us2 \<rparr>,
          if userSocketCount = 1 \<and> db_ok
          then [(Broadcast_from sid, User_status_change uid Online)] else []))"

text \<open>
  \<^verbatim>\<open>disconnect\<close>: nothing happens for a socket without a (truthy) bound user id.
  Otherwise the socket id leaves the user's set; an emptied set is deleted from
  \<^verbatim>\<open>onlineUsers\<close> and, if the awaited database write resolves, the offline status
  is broadcast. \<^verbatim>\<open>userSockets\<close> loses the socket id in every bound case.
\<close>

definition disconnect ::
  "socketId \<Rightarrow> bool \<Rightarrow> server_state \<Rightarrow> server_state \<times> emission list" where
  "disconnect sid db_ok st =
     (case userSockets st sid of
        None \<Rightarrow> (st, [])
      | Some uid \<Rightarrow>
          if \<not> truthy uid then (st, [])
          else
            (case onlineUsers st uid of
               None \<Rightarrow> (st\<lparr> userSockets := (userSockets st)(sid := None) \<rparr>, [])
             | Some conns \<Rightarrow>
                 (let conns' = set_delete sid conns;
                      remainingConnections = length conns'
                  in if remainingConnections = 0
                     then (\<lparr> onlineUsers = (onlineUsers st)(uid := None),
                             userSockets = (userSockets st)(sid := None) \<rparr>,
                           if db_ok then [(Broadcast_from sid, User_status_change uid Offline)]
                           else [])
                     else (\<lparr> onlineUsers = (onlineUsers st)(uid \<mapsto> conns'),
                             userSockets = (userSockets st)(sid := None) \<rparr>, []))))"

text \<open>
  The four signaling handlers read \<^verbatim>\<open>onlineUsers.get(data.to)\<close> and never write
  to the maps, so each returns only its emit calls. The test
  \<^verbatim>\<open>recipientSockets && recipientSockets.size > 0\<close> is the pattern \<open>Some (c # cs)\<close>.
\<close>

definition webrtc_offer :: "socketId \<Rightarrow> call_data \<Rightarrow> server_state \<Rightarrow> emission list" where
  "webrtc_offer sid d st =
     (case onlineUsers st (to_user d) of
        Some (recipientSocketId # rest) \<Rightarrow> [(To_socket recipientSocketId, Msg_webrtc_offer d)]
      | _ \<Rightarrow> [(To_sender sid, Call_failed ''User is offline'')])"

definition webrtc_answer :: "socketId \<Rightarrow> call_data \<Rightarrow> server_state \<Rightarrow> emission list" where
  "webrtc_answer sid d st =
     (case onlineUsers st (to_user d) of
        Some (recipientSocketId # rest) \<Rightarrow> [(To_socket recipientSocketId, Msg_webrtc_answer d)]
      | _ \<Rightarrow> [])"

definition webrtc_ice_candidate :: "socketId \<Rightarrow> call_data \<Rightarrow> server_state \<Rightarrow> emission list" where
  "webrtc_ice_candidate sid d st =
     (case onlineUsers st (to_user d) of
        Some (recipientSocketId # rest) \<Rightarrow>
          [(To_socket recipientSocketId, Msg_webrtc_ice_candidate d)]
      | _ \<Rightarrow> [])"

definition webrtc_call_ended :: "socketId \<Rightarrow> call_data \<Rightarrow> server_state \<Rightarrow> emission list" where
  "webrtc_call_ended sid d st =
     (case onlineUsers st (to_user d) of
        Some (c # cs) \<Rightarrow> map (\<lambda>socketId. (To_socket socketId, Msg_webrtc_call_ended d)) (c # cs)
      | _ \<Rightarrow> [])"

text \<open>
  One event per handler invocation. JavaScript runs each handler to its first
  \<^verbatim>\<open>await\<close> without interruption, and every map access of the two lifecycle
  handlers that another handler can observe sits before that point, so a trace of
  events acts on the maps one event at a time.
\<close>

datatype event =
    User_join socketId userId bool
  | Disconnect socketId bool
  | Webrtc_offer socketId call_data
  | Webrtc_answer socketId call_data
  | Webrtc_ice_candidate socketId call_data
  | Webrtc_call_ended socketId call_data

fun handle :: "event \<Rightarrow> server_state \<Rightarrow> server_state \<times> emission list" where
  "handle (User_join sid uid db_ok) st = user_join sid uid db_ok st"
| "handle (Disconnect sid db_ok) st = disconnect sid db_ok st"
| "handle (Webrtc_offer sid d) st = (st, webrtc_offer sid d st)"
| "handle (Webrtc_answer sid d) st = (st, webrtc_answer sid d st)"
| "handle (Webrtc_ice_candidate sid d) st = (st, webrtc_ice_candidate sid d st)"
| "handle (Webrtc_call_ended sid d) st = (st, webrtc_call_ended sid d st)"

fun run :: "event list \<Rightarrow> server_state \<times> emission list \<Rightarrow> server_state \<times> emission list" where
  "run [] cfg = cfg"
| "run (e # es) (st, out) = (case handle e st of (st', new) \<Rightarrow> run es (st', out @ new))"

definition serve :: "event list \<Rightarrow> server_state \<times> emission list" where
  "serve tr = run tr (server_init, [])"

definition lookup :: "server_state \<Rightarrow> userId \<Rightarrow> socketId list" where
  "lookup st uid = (case onlineUsers st uid of None \<Rightarrow> [] | Some conns \<Rightarrow> conns)"

definition forwards :: "emission list \<Rightarrow> emission list" where
  "forwards out = filter (\<lambda>(t, m). case t of To_socket s \<Rightarrow> True | _ \<Rightarrow> False) out"

subsection \<open>Traces and the connections that are really open\<close>

text \<open>
  The registry is compared with what the transport knows, read off the trace of
  events alone: a connection is live for a user when it has announced that user in
  a \<^verbatim>\<open>user_join\<close> and has not yet disconnected.
\<close>

fun socket_of :: "event \<Rightarrow> socketId" where
  "socket_of (User_join sid uid db_ok) = sid"
| "socket_of (Disconnect sid db_ok) = sid"
| "socket_of (Webrtc_offer sid d) = sid"
| "socket_of (Webrtc_answer sid d) = sid"
| "socket_of (Webrtc_ice_candidate sid d) = sid"
| "socket_of (Webrtc_call_ended sid d) = sid"

fun announcements :: "event list \<Rightarrow> (socketId \<times> userId) list" where
  "announcements [] = []"
| "announcements (User_join sid uid db_ok # es) = (sid, uid) # announcements es"
| "announcements (e # es) = announcements es"

fun closed :: "event list \<Rightarrow> socketId list" where
  "closed [] = []"
| "closed (Disconnect sid db_ok # es) = sid # closed es"
| "closed (e # es) = closed es"

definition live_connections :: "event list \<Rightarrow> userId \<Rightarrow> socketId set" where
  "live_connections tr uid =
     set (filter (\<lambda>s. s \<notin> set (closed tr)) (map fst (filter (\<lambda>p. snd p = uid) (announcements tr))))"

fun silent_after_close :: "event list \<Rightarrow> bool" where
  "silent_after_close [] = True"
| "silent_after_close (Disconnect sid db_ok # es) = (sid \<notin> set (map socket_of es) \<and> silent_after_close es)"
| "silent_after_close (e # es) = silent_after_close es"

definition one_identity :: "event list \<Rightarrow> bool" where
  "one_identity tr =
     (\<forall>(s, u) \<in> set (announcements tr). truthy u \<and> (\<forall>(s', u') \<in> set (announcements tr). s' = s \<longrightarrow> u' = u))"

text \<open>
  \<open>silent_after_close\<close>: socket.io delivers nothing on a socket after its
  \<^verbatim>\<open>disconnect\<close>, and a socket id is not handed out twice. \<open>one_identity\<close>: every
  connection announces a single user id, and a truthy one, as the client does
  (\<^verbatim>\<open>newSocket.emit('user_join', user.id)\<close> on connect and on reconnect).
\<close>

definition nonempty_entries :: "server_state \<Rightarrow> bool" where
  "nonempty_entries st = (\<forall>u conns. onlineUsers st u = Some conns \<longrightarrow> conns \<noteq> [])"

definition agrees :: "event list \<Rightarrow> server_state \<Rightarrow> bool" where
  "agrees tr st \<longleftrightarrow>
     (\<forall>s u. userSockets st s = Some u \<longleftrightarrow> s \<in> live_connections tr u)
     \<and> (\<forall>u. set (lookup st u) = live_connections tr u)"

definition conn_count :: "server_state \<Rightarrow> userId \<Rightarrow> nat" where
  "conn_count st uid = length (lookup st uid)"

fun is_call_failed :: "emission \<Rightarrow> bool" where
  "is_call_failed (t, Call_failed r) = True"
| "is_call_failed (t, m) = False"

definition sample_data :: call_data where
  "sample_data = \<lparr> to_user = ''B'', from_user = ''A'', chat_id = ''chat'', body = ''sdp'' \<rparr>"

definition two_tabs :: server_state where
  "two_tabs = fst (serve [User_join ''c2'' ''B'' True, User_join ''c3'' ''B'' True])"

section \<open>Client: the call session of the VideoCall component\<close>

text \<open>
  One mounted instance of the React component \<^verbatim>\<open>VideoCall\<close> with fixed props is one
  call session. Its state is the component's \<^verbatim>\<open>useState\<close> values, its two refs
  (\<^verbatim>\<open>peerConnectionRef\<close>, \<^verbatim>\<open>iceCandidatesQueue\<close>) and the browser objects they point
  to: the local \<^verbatim>\<open>MediaStream\<close> (its tracks) and the \<^verbatim>\<open>RTCPeerConnection\<close>.
  Session descriptions and ICE candidates are opaque strings.
\<close>

datatype media_kind = Audio | Video

record track =
  track_id :: nat
  track_kind :: media_kind
  track_enabled :: bool
  track_ended :: bool

datatype sdp_type = Offer | Answer

record description =
  desc_type :: sdp_type
  desc_sdp :: string

type_synonym candidate = string

datatype signaling_state =
  Stable | Have_local_offer | Have_remote_offer | Have_local_pranswer | Have_remote_pranswer
  | Signaling_closed

datatype connection_state =
  Conn_new | Conn_connecting | Conn_connected | Conn_disconnected | Conn_failed | Conn_closed

text \<open>
  A sender of the peer connection refers to a track object; what the component
  reads through that reference is the track's kind, which never changes.
\<close>

type_synonym track_ref = "nat \<times> media_kind"

definition ref_of :: "track \<Rightarrow> track_ref" where
  "ref_of t = (track_id t, track_kind t)"

text \<open>
  The part of an \<^verbatim>\<open>RTCPeerConnection\<close> the component reads or drives. \<open>senders\<close> holds
  the track of each \<^verbatim>\<open>RTCRtpSender\<close> in \<^verbatim>\<open>getSenders()\<close> order. Two fields only
  record calls: \<open>addIceCandidate_calls\<close> lists every candidate passed to
  \<^verbatim>\<open>addIceCandidate\<close> together with whether a remote description was present at
  that call, and \<open>close_calls\<close> counts the calls of \<^verbatim>\<open>close()\<close>.
\<close>

record peer_connection =
  signalingState :: signaling_state
  remoteDescription :: "description option"
  localDescription :: "description option"
  senders :: "track_ref list"
  addIceCandidate_calls :: "(candidate \<times> bool) list"
  close_calls :: nat

definition new_RTCPeerConnection :: peer_connection where
  "new_RTCPeerConnection =
     \<lparr> signalingState = Stable, remoteDescription = None, localDescription = None,
       senders = [], addIceCandidate_calls = [], close_calls = 0 \<rparr>"

text \<open>
  Browser operations, as far as the component depends on them. A description that
  is applied successfully is stored, and the signaling state follows its type.
\<close>

definition addTrack :: "track \<Rightarrow> peer_connection \<Rightarrow> peer_connection" where
  "addTrack t pc = pc\<lparr> senders := senders pc @ [ref_of t] \<rparr>"

definition setRemoteDescription :: "description \<Rightarrow> peer_connection \<Rightarrow> peer_connection" where
  "setRemoteDescription d pc =
     pc\<lparr> remoteDescription := Some d,
         signalingState := (case desc_type d of Offer \<Rightarrow> Have_remote_offer | Answer \<Rightarrow> Stable) \<rparr>"

definition setLocalDescription :: "description \<Rightarrow> peer_connection \<Rightarrow> peer_connection" where
  "setLocalDescription d pc =
     pc\<lparr> localDescription := Some d,
         signalingState := (case desc_type d of Offer \<Rightarrow> Have_local_offer | Answer \<Rightarrow> Stable) \<rparr>"

definition addIceCandidate :: "candidate \<Rightarrow> peer_connection \<Rightarrow> peer_connection" where
  "addIceCandidate c pc =
     pc\<lparr> addIceCandidate_calls := addIceCandidate_calls pc @ [(c, remoteDescription pc \<noteq> None)] \<rparr>"

definition close :: "peer_connection \<Rightarrow> peer_connection" where
  "close pc = pc\<lparr> signalingState := Signaling_closed, close_calls := Suc (close_calls pc) \<rparr>"

text \<open>
  \<^verbatim>\<open>getSenders().find(sender => sender.track?.kind === 'video')\<close> followed by
  \<^verbatim>\<open>replaceTrack\<close> on the sender found: the first video sender gets the new track.
\<close>

fun replaceTrack_video :: "track \<Rightarrow> track_ref list \<Rightarrow> track_ref list" where
  "replaceTrack_video t [] = []"
| "replaceTrack_video t (x # xs) =
     (if snd x = Video then ref_of t # xs else x # replaceTrack_video t xs)"

definition stop :: "track \<Rightarrow> track" where
  "stop t = t\<lparr> track_ended := True \<rparr>"

text \<open>Props of the component and the payloads of the four signaling events.\<close>

record props =
  userId :: string
  userName :: string
  friendId :: string
  friendName :: string
  chatId :: string
  isInitiator :: bool
  callType :: media_kind

record webrtc_offer_data =
  offer_to :: string
  offer_from :: string
  offer_fromName :: string
  offer_offer :: description
  offer_callType :: media_kind
  offer_chatId :: string

record webrtc_answer_data =
  answer_to :: string
  answer_from :: string
  answer_answer :: description
  answer_chatId :: string

record webrtc_ice_candidate_data =
  ice_to :: string
  ice_candidate :: candidate
  ice_chatId :: string

record webrtc_call_ended_data =
  ended_to :: string
  ended_chatId :: string

datatype client_emit =
    Emit_webrtc_offer webrtc_offer_data
  | Emit_webrtc_answer webrtc_answer_data
  | Emit_webrtc_ice_candidate webrtc_ice_candidate_data
  | Emit_webrtc_call_ended webrtc_call_ended_data

datatype call_status = Status_connecting | Status_ringing | Status_connected | Status_ended

datatype lifecycle = Not_mounted | Is_mounted | Was_unmounted

text \<open>
  A function of the component body closes over the \<^verbatim>\<open>localStream\<close> of the render
  that created it, and \<^verbatim>\<open>setLocalStream\<close> is called once, with the stream that
  \<^verbatim>\<open>getUserMedia\<close> returned: a closure sees either the initial \<^verbatim>\<open>null\<close> or that
  stream object (with whatever tracks it holds by then).
\<close>

datatype render = Before_media | After_media

text \<open>
  The \<^verbatim>\<open>webrtc_offer\<close> and \<^verbatim>\<open>webrtc_answer\<close> listeners are \<^verbatim>\<open>async\<close> functions that
  empty the candidate queue between their awaits. A run of one of them is
  suspended at each \<^verbatim>\<open>await\<close> until the browser settles the promise, and other
  events are handled in between. An \<open>await_point\<close> names the \<^verbatim>\<open>await\<close> at which a run is
  suspended, with the local values the rest of the run reads: the listener's
  \<^verbatim>\<open>data\<close> and, after \<^verbatim>\<open>createAnswer\<close>, the \<^verbatim>\<open>answer\<close>. An \<open>outcome\<close> is how the promise
  settles; the value it is fulfilled with is read after \<^verbatim>\<open>createAnswer\<close> only.
\<close>

datatype outcome = Fulfilled string | Rejected

datatype await_point =
    Offer_setRemoteDescription webrtc_offer_data
  | Offer_addIceCandidate webrtc_offer_data
  | Offer_createAnswer webrtc_offer_data
  | Offer_setLocalDescription webrtc_offer_data description
  | Answer_setRemoteDescription webrtc_answer_data
  | Answer_addIceCandidate

text \<open>
  \<open>lifecycle\<close> follows the component; while it is \<open>Is_mounted\<close> the flag \<^verbatim>\<open>mounted\<close> of
  the media effect is true and the socket listeners are registered.
  \<open>media_pending\<close> says that the \<^verbatim>\<open>getUserMedia\<close> call of \<^verbatim>\<open>initializeMedia\<close> has not
  settled yet. \<open>awaiting\<close> lists the suspended runs of the offer and answer
  listeners, oldest first. \<open>timers\<close> holds the pending two-second timeouts started
  by the \<^verbatim>\<open>call_failed\<close> listener, each with the render whose \<^verbatim>\<open>handleEndCall\<close> it will
  call. \<open>emitted\<close> lists the \<^verbatim>\<open>socket.emit\<close> calls and \<open>onEndCall_calls\<close> counts the
  calls of the \<^verbatim>\<open>onEndCall\<close> prop.
\<close>

record session =
  localStream :: "track list option"
  isMuted :: bool
  isVideoOff :: bool
  callStatus :: call_status
  error :: "string option"
  peerConnectionRef :: "peer_connection option"
  iceCandidatesQueue :: "candidate list"
  lifecycle :: lifecycle
  media_pending :: bool
  awaiting :: "await_point list"
  timers :: "render list"
  emitted :: "client_emit list"
  onEndCall_calls :: nat

definition initial_session :: "props \<Rightarrow> session" where
  "initial_session p =
     \<lparr> localStream = None, isMuted = False, isVideoOff = (callType p = Audio),
       callStatus = Status_connecting, error = None, peerConnectionRef = None,
       iceCandidatesQueue = [], lifecycle = Not_mounted, media_pending = False, awaiting = [],
       timers = [], emitted = [], onEndCall_calls = 0 \<rparr>"

definition mounted :: "session \<Rightarrow> bool" where
  "mounted s = (lifecycle s = Is_mounted)"

text \<open>
  \<^verbatim>\<open>cleanup\<close> is memoised on \<^verbatim>\<open>[localStream]\<close> and \<^verbatim>\<open>handleEndCall\<close> on \<^verbatim>\<open>cleanup\<close>, so
  the hang-up button and the socket listeners (registered again whenever
  \<^verbatim>\<open>handleEndCall\<close> changes) call the functions of the current render. The media
  effect has the dependency list \<^verbatim>\<open>[callType]\<close> and runs once, after the first
  render: its cleanup, and the \<^verbatim>\<open>initializePeerConnection\<close> it calls with the
  \<^verbatim>\<open>onconnectionstatechange\<close> handler defined there, keep the \<^verbatim>\<open>cleanup\<close> and
  \<^verbatim>\<open>handleEndCall\<close> of that first render, in which \<^verbatim>\<open>localStream\<close> is \<^verbatim>\<open>null\<close>.
\<close>

fun closure_localStream :: "render \<Rightarrow> session \<Rightarrow> track list option" where
  "closure_localStream Before_media s = None"
| "closure_localStream After_media s = localStream s"

definition current_render :: "session \<Rightarrow> render" where
  "current_render s = (if localStream s = None then Before_media else After_media)"

definition emit :: "client_emit \<Rightarrow> session \<Rightarrow> session" where
  "emit m s = s\<lparr> emitted := emitted s @ [m] \<rparr>"

definition cleanup :: "render \<Rightarrow> session \<Rightarrow> session" where
  "cleanup r s =
     (let s1 = (case closure_localStream r s of
                  None \<Rightarrow> s
                | Some tracks \<Rightarrow> s\<lparr> localStream := Some (map stop tracks) \<rparr>);
          s2 = (case peerConnectionRef s1 of
                  None \<Rightarrow> s1
                | Some pc \<Rightarrow> s1\<lparr> peerConnectionRef := Some (close pc) \<rparr>)
      in s2\<lparr> callStatus := Status_ended \<rparr>)"

definition handleEndCall :: "props \<Rightarrow> render \<Rightarrow> session \<Rightarrow> session" where
  "handleEndCall p r s =
     (let s1 = emit (Emit_webrtc_call_ended \<lparr> ended_to = friendId p, ended_chatId = chatId p \<rparr>) s;
          s2 = cleanup r s1
      in s2\<lparr> onEndCall_calls := Suc (onEndCall_calls s2) \<rparr>)"

definition connection_failed :: string where
  "connection_failed = ''Failed to establish connection.''"

definition media_failed :: string where
  "media_failed = ''Could not access camera/microphone. Please check permissions.''"

definition make_offer :: "props \<Rightarrow> description \<Rightarrow> webrtc_offer_data" where
  "make_offer p d =
     \<lparr> offer_to = friendId p, offer_from = userId p, offer_fromName = userName p,
       offer_offer = d, offer_callType = callType p, offer_chatId = chatId p \<rparr>"

text \<open>
  \<^verbatim>\<open>initializePeerConnection\<close>. \<open>created\<close> is what \<^verbatim>\<open>createOffer\<close> resolves to (\<open>None\<close>
  when it rejects) and \<open>sld_ok\<close> whether \<^verbatim>\<open>setLocalDescription\<close> resolves; a
  rejection goes to the \<^verbatim>\<open>catch\<close>, which sets the error text.
\<close>

definition initializePeerConnection ::
  "props \<Rightarrow> track list \<Rightarrow> string option \<Rightarrow> bool \<Rightarrow> session \<Rightarrow> session" where
  "initializePeerConnection p stream created sld_ok s =
     (let pc = fold addTrack stream new_RTCPeerConnection;
          s1 = s\<lparr> peerConnectionRef := Some pc \<rparr>
      in if \<not> isInitiator p then s1
         else
           (let s2 = s1\<lparr> callStatus := Status_ringing \<rparr>
            in case created of
                 None \<Rightarrow> s2\<lparr> error := Some connection_failed \<rparr>
               | Some sdp \<Rightarrow>
                   (let offer = \<lparr> desc_type = Offer, desc_sdp = sdp \<rparr>
                    in if \<not> sld_ok then s2\<lparr> error := Some connection_failed \<rparr>
                       else emit (Emit_webrtc_offer (make_offer p offer))
                              (s2\<lparr> peerConnectionRef := Some (setLocalDescription offer pc) \<rparr>))))"

text \<open>
  \<^verbatim>\<open>initializeMedia\<close>, from the point where \<^verbatim>\<open>getUserMedia\<close> settles: \<open>media\<close> is
  the stream it resolves to, or \<open>None\<close> when it rejects. A stream that arrives
  after unmount is stopped and dropped.
\<close>

definition initializeMedia ::
  "props \<Rightarrow> track list option \<Rightarrow> string option \<Rightarrow> bool \<Rightarrow> session \<Rightarrow> session" where
  "initializeMedia p media created sld_ok s =
     (case media of
        Some stream \<Rightarrow>
          if \<not> mounted s then s
          else initializePeerConnection p stream created sld_ok (s\<lparr> localStream := Some stream \<rparr>)
      | None \<Rightarrow>
          if mounted s then s\<lparr> error := Some media_failed, callStatus := Status_ended \<rparr>
          else s)"

text \<open>
  The \<^verbatim>\<open>webrtc_offer\<close> listener, up to its first \<^verbatim>\<open>await\<close>: when the offer is addressed
  to this user and a peer connection exists, it calls \<^verbatim>\<open>setRemoteDescription\<close> and
  is suspended. The browser stores the description when that call succeeds, not
  before.
\<close>

definition on_webrtc_offer :: "props \<Rightarrow> webrtc_offer_data \<Rightarrow> session \<Rightarrow> session" where
  "on_webrtc_offer p d s =
     (case peerConnectionRef s of
        None \<Rightarrow> s
      | Some pc \<Rightarrow>
          if offer_to d \<noteq> userId p then s
          else s\<lparr> awaiting := awaiting s @ [Offer_setRemoteDescription d] \<rparr>)"

text \<open>
  The \<^verbatim>\<open>webrtc_answer\<close> listener, up to its first \<^verbatim>\<open>await\<close>: it goes on only when a
  peer connection exists whose signaling state is not \<^verbatim>\<open>stable\<close>.
\<close>

definition on_webrtc_answer :: "webrtc_answer_data \<Rightarrow> session \<Rightarrow> session" where
  "on_webrtc_answer d s =
     (case peerConnectionRef s of
        None \<Rightarrow> s
      | Some pc \<Rightarrow>
          if signalingState pc = Stable then s
          else s\<lparr> awaiting := awaiting s @ [Answer_setRemoteDescription d] \<rparr>)"

text \<open>
  The head of the loop \<^verbatim>\<open>while (iceCandidatesQueue.current.length > 0)\<close> in the
  offer listener. With a candidate queued, it is shifted off and passed to
  \<^verbatim>\<open>addIceCandidate\<close>, and the run is suspended again; a queued candidate is an
  \<^verbatim>\<open>RTCIceCandidate\<close> object, so the test \<^verbatim>\<open>if (candidate)\<close> always succeeds. With the
  queue empty the run goes on to \<^verbatim>\<open>createAnswer\<close>. The result is the new state and
  the \<^verbatim>\<open>await\<close> at which the run is suspended, or \<open>None\<close> when the run is over. A call
  on \<^verbatim>\<open>peerConnectionRef.current\<close> when that is \<^verbatim>\<open>null\<close> throws, which ends the run in
  the \<^verbatim>\<open>catch\<close>.
\<close>

definition offer_flush :: "webrtc_offer_data \<Rightarrow> session \<Rightarrow> session \<times> await_point option" where
  "offer_flush d s =
     (case iceCandidatesQueue s of
        [] \<Rightarrow>
          (case peerConnectionRef s of
             None \<Rightarrow> (s\<lparr> error := Some connection_failed \<rparr>, None)
           | Some pc \<Rightarrow> (s, Some (Offer_createAnswer d)))
      | c # queue \<Rightarrow>
          (case peerConnectionRef s of
             None \<Rightarrow> (s\<lparr> iceCandidatesQueue := queue, error := Some connection_failed \<rparr>, None)
           | Some pc \<Rightarrow>
               (s\<lparr> iceCandidatesQueue := queue, peerConnectionRef := Some (addIceCandidate c pc) \<rparr>,
                Some (Offer_addIceCandidate d))))"

text \<open>
  The same loop in the answer listener; after it the listener sets the call
  status, and its \<^verbatim>\<open>catch\<close> only logs.
\<close>

definition answer_flush :: "session \<Rightarrow> session \<times> await_point option" where
  "answer_flush s =
     (case iceCandidatesQueue s of
        [] \<Rightarrow> (s\<lparr> callStatus := Status_connected \<rparr>, None)
      | c # queue \<Rightarrow>
          (case peerConnectionRef s of
             None \<Rightarrow> (s\<lparr> iceCandidatesQueue := queue \<rparr>, None)
           | Some pc \<Rightarrow>
               (s\<lparr> iceCandidatesQueue := queue, peerConnectionRef := Some (addIceCandidate c pc) \<rparr>,
                Some Answer_addIceCandidate)))"

text \<open>
  What a suspended run does when its promise settles, up to the next \<^verbatim>\<open>await\<close> or
  to its end. A description is stored in the peer connection at the moment
  \<^verbatim>\<open>setRemoteDescription\<close> or \<^verbatim>\<open>setLocalDescription\<close> succeeds. A rejection goes to
  the \<^verbatim>\<open>catch\<close> of the listener, which sets the error text in the offer listener and
  only logs in the answer listener.
\<close>

fun resume :: "props \<Rightarrow> await_point \<Rightarrow> outcome \<Rightarrow> session \<Rightarrow> session \<times> await_point option" where
  "resume p (Offer_setRemoteDescription d) (Fulfilled v) s =
     offer_flush d
       (s\<lparr> peerConnectionRef :=
             map_option (setRemoteDescription (offer_offer d)) (peerConnectionRef s) \<rparr>)"
| "resume p (Offer_addIceCandidate d) (Fulfilled v) s = offer_flush d s"
| "resume p (Offer_createAnswer d) (Fulfilled sdp) s =
     (case peerConnectionRef s of
        None \<Rightarrow> (s\<lparr> error := Some connection_failed \<rparr>, None)
      | Some pc \<Rightarrow> (s, Some (Offer_setLocalDescription d \<lparr> desc_type = Answer, desc_sdp = sdp \<rparr>)))"
| "resume p (Offer_setLocalDescription d answer) (Fulfilled v) s =
     ((emit (Emit_webrtc_answer
               \<lparr> answer_to = offer_from d, answer_from = userId p,
                 answer_answer = answer, answer_chatId = offer_chatId d \<rparr>)
         (s\<lparr> peerConnectionRef :=
               map_option (setLocalDescription answer) (peerConnectionRef s) \<rparr>))
        \<lparr> callStatus := Status_connected \<rparr>,
      None)"
| "resume p (Offer_setRemoteDescription d) Rejected s = (s\<lparr> error := Some connection_failed \<rparr>, None)"
| "resume p (Offer_addIceCandidate d) Rejected s = (s\<lparr> error := Some connection_failed \<rparr>, None)"
| "resume p (Offer_createAnswer d) Rejected s = (s\<lparr> error := Some connection_failed \<rparr>, None)"
| "resume p (Offer_setLocalDescription d answer) Rejected s =
     (s\<lparr> error := Some connection_failed \<rparr>, None)"
| "resume p (Answer_setRemoteDescription d) (Fulfilled v) s =
     answer_flush
       (s\<lparr> peerConnectionRef :=
             map_option (setRemoteDescription (answer_answer d)) (peerConnectionRef s) \<rparr>)"
| "resume p Answer_addIceCandidate (Fulfilled v) s = answer_flush s"
| "resume p (Answer_setRemoteDescription d) Rejected s = (s, None)"
| "resume p Answer_addIceCandidate Rejected s = (s, None)"

text \<open>
  The promise awaited by the \<open>i\<close>-th suspended run settles: the run goes on, and
  is suspended at its next \<^verbatim>\<open>await\<close> or leaves the list.
\<close>

definition settle :: "props \<Rightarrow> nat \<Rightarrow> outcome \<Rightarrow> session \<Rightarrow> session" where
  "settle p i res s =
     (if i < length (awaiting s)
      then (case resume p (awaiting s ! i) res s of
              (s1, None) \<Rightarrow> s1\<lparr> awaiting := take i (awaiting s) @ drop (Suc i) (awaiting s) \<rparr>
            | (s1, Some a) \<Rightarrow> s1\<lparr> awaiting := (awaiting s)[i := a] \<rparr>)
      else s)"

text \<open>
  The \<^verbatim>\<open>webrtc_ice_candidate\<close> listener reads \<^verbatim>\<open>data.candidate\<close> and nothing else.
  A rejected \<^verbatim>\<open>addIceCandidate\<close> is only logged, so its outcome changes nothing.
\<close>

definition on_webrtc_ice_candidate :: "webrtc_ice_candidate_data \<Rightarrow> session \<Rightarrow> session" where
  "on_webrtc_ice_candidate d s =
     (case peerConnectionRef s of
        None \<Rightarrow> s
      | Some pc \<Rightarrow>
          if remoteDescription pc \<noteq> None
          then s\<lparr> peerConnectionRef := Some (addIceCandidate (ice_candidate d) pc) \<rparr>
          else s\<lparr> iceCandidatesQueue := iceCandidatesQueue s @ [ice_candidate d] \<rparr>)"

definition on_webrtc_call_ended :: "props \<Rightarrow> webrtc_call_ended_data \<Rightarrow> session \<Rightarrow> session" where
  "on_webrtc_call_ended p d s =
     (if ended_chatId d = chatId p then handleEndCall p (current_render s) s else s)"

text \<open>
  The \<^verbatim>\<open>call_failed\<close> listener shows the reason and starts a timeout of two
  seconds whose callback calls the \<^verbatim>\<open>handleEndCall\<close> the listener was registered
  with. Nothing clears the timeout, so it also fires after unmount.
\<close>

definition on_call_failed :: "string \<Rightarrow> session \<Rightarrow> session" where
  "on_call_failed reason s =
     s\<lparr> error := Some reason, timers := timers s @ [current_render s] \<rparr>"

definition call_failed_timeout :: "props \<Rightarrow> session \<Rightarrow> session" where
  "call_failed_timeout p s =
     (case timers s of
        [] \<Rightarrow> s
      | r # rest \<Rightarrow> handleEndCall p r (s\<lparr> timers := rest \<rparr>))"

text \<open>The handlers installed on the peer connection.\<close>

definition onicecandidate :: "props \<Rightarrow> candidate option \<Rightarrow> session \<Rightarrow> session" where
  "onicecandidate p ev s =
     (case ev of
        None \<Rightarrow> s
      | Some c \<Rightarrow> emit (Emit_webrtc_ice_candidate
                          \<lparr> ice_to = friendId p, ice_candidate = c, ice_chatId = chatId p \<rparr>) s)"

definition onconnectionstatechange :: "props \<Rightarrow> connection_state \<Rightarrow> session \<Rightarrow> session" where
  "onconnectionstatechange p st s =
     (if st = Conn_connected then s\<lparr> callStatus := Status_connected \<rparr>
      else if st = Conn_failed \<or> st = Conn_disconnected \<or> st = Conn_closed
      then handleEndCall p Before_media s
      else s)"

definition onnegotiationneeded :: "props \<Rightarrow> string option \<Rightarrow> bool \<Rightarrow> session \<Rightarrow> session" where
  "onnegotiationneeded p created sld_ok s =
     (case peerConnectionRef s of
        None \<Rightarrow> s
      | Some pc \<Rightarrow>
          if signalingState pc \<noteq> Stable then s
          else
            (case created of
               None \<Rightarrow> s
             | Some sdp \<Rightarrow>
                 (let offer = \<lparr> desc_type = Offer, desc_sdp = sdp \<rparr>
                  in if \<not> sld_ok then s
                     else emit (Emit_webrtc_offer (make_offer p offer))
                            (s\<lparr> peerConnectionRef := Some (setLocalDescription offer pc) \<rparr>))))"

definition ontrack :: "bool \<Rightarrow> session \<Rightarrow> session" where
  "ontrack played s = (if played then s\<lparr> callStatus := Status_connected \<rparr> else s)"

text \<open>The two buttons besides hang-up.\<close>

definition toggleMute :: "session \<Rightarrow> session" where
  "toggleMute s =
     (case localStream s of
        None \<Rightarrow> s
      | Some tracks \<Rightarrow>
          s\<lparr> localStream :=
               Some (map (\<lambda>t. if track_kind t = Audio
                               then t\<lparr> track_enabled := \<not> track_enabled t \<rparr> else t) tracks),
             isMuted := \<not> isMuted s \<rparr>)"

text \<open>
  \<^verbatim>\<open>toggleVideo\<close>. Turning the video off only clears \<^verbatim>\<open>enabled\<close>. Turning it on
  stops the old video tracks, asks \<^verbatim>\<open>getUserMedia\<close> for a new one (\<open>fresh\<close>, \<open>None\<close>
  when it rejects), replaces the track of the first video sender
  (\<open>replace_ok\<close>: \<^verbatim>\<open>replaceTrack\<close> resolves) and adds the new track to the local
  stream. \<^verbatim>\<open>addTrack\<close> of the peer connection is not called.
\<close>

definition toggleVideo :: "props \<Rightarrow> track option \<Rightarrow> bool \<Rightarrow> session \<Rightarrow> session" where
  "toggleVideo p fresh replace_ok s =
     (case (localStream s, peerConnectionRef s) of
        (Some tracks, Some pc) \<Rightarrow>
          if callType p \<noteq> Video then s
          else if \<not> isVideoOff s
          then s\<lparr> localStream :=
                    Some (map (\<lambda>t. if track_kind t = Video
                                    then t\<lparr> track_enabled := False \<rparr> else t) tracks),
                  isVideoOff := True \<rparr>
          else
            (let stopped = map (\<lambda>t. if track_kind t = Video then stop t else t) tracks;
                 s1 = s\<lparr> localStream := Some stopped \<rparr>
             in case fresh of
                  None \<Rightarrow> s1\<lparr> error := Some ''Failed to toggle video'' \<rparr>
                | Some newVideoTrack \<Rightarrow>
                    if \<exists>x \<in> set (senders pc). snd x = Video
                    then
                      (if \<not> replace_ok then s1\<lparr> error := Some ''Failed to toggle video'' \<rparr>
                       else s1\<lparr> peerConnectionRef :=
                                  Some (pc\<lparr> senders := replaceTrack_video newVideoTrack (senders pc) \<rparr>),
                                localStream := Some (stopped @ [newVideoTrack]),
                                isVideoOff := False \<rparr>)
                    else s1\<lparr> localStream := Some (stopped @ [newVideoTrack]), isVideoOff := False \<rparr>)
      | _ \<Rightarrow> s)"

text \<open>
  What can happen to a session. The runs of the offer and answer listeners are
  split at every \<^verbatim>\<open>await\<close>: \<open>On_webrtc_offer\<close> and \<open>On_webrtc_answer\<close> start a run, and
  \<open>Await_settled i res\<close> settles the promise of the \<open>i\<close>-th suspended run with the
  outcome \<open>res\<close>, whether or not the component is still mounted; any other event
  can come in between. \<^verbatim>\<open>getUserMedia\<close> at start-up is split likewise into the
  mount, which issues the request, and \<open>Media_settled\<close>. In the remaining handlers
  an awaited browser operation is taken to settle inside the handler, with the
  outcome the event carries. Socket listeners and buttons exist while the
  component is mounted; the handlers of the peer connection exist once it is
  created.
\<close>

datatype client_event =
    Mount
  | Media_settled "track list option" "string option" bool
  | Unmount
  | Hang_up
  | Toggle_mute
  | Toggle_video "track option" bool
  | On_call_failed string
  | Call_failed_timeout
  | On_webrtc_offer webrtc_offer_data
  | On_webrtc_answer webrtc_answer_data
  | Await_settled nat outcome
  | On_webrtc_ice_candidate webrtc_ice_candidate_data
  | On_webrtc_call_ended webrtc_call_ended_data
  | Pc_track bool
  | Pc_icecandidate "candidate option"
  | Pc_connectionstatechange connection_state
  | Pc_negotiationneeded "string option" bool

definition while_mounted :: "session \<Rightarrow> session \<Rightarrow> session" where
  "while_mounted s s' = (if mounted s then s' else s)"

definition with_pc :: "session \<Rightarrow> session \<Rightarrow> session" where
  "with_pc s s' = (if peerConnectionRef s \<noteq> None then s' else s)"

fun react :: "props \<Rightarrow> client_event \<Rightarrow> session \<Rightarrow> session" where
  "react p Mount s =
     (if lifecycle s = Not_mounted then s\<lparr> lifecycle := Is_mounted, media_pending := True \<rparr>
      else s)"
| "react p (Media_settled media created sld_ok) s =
     (if media_pending s
      then initializeMedia p media created sld_ok (s\<lparr> media_pending := False \<rparr>) else s)"
| "react p Unmount s = while_mounted s (cleanup Before_media (s\<lparr> lifecycle := Was_unmounted \<rparr>))"
| "react p Hang_up s = while_mounted s (handleEndCall p (current_render s) s)"
| "react p Toggle_mute s = while_mounted s (toggleMute s)"
| "react p (Toggle_video fresh replace_ok) s = while_mounted s (toggleVideo p fresh replace_ok s)"
| "react p (On_call_failed reason) s = while_mounted s (on_call_failed reason s)"
| "react p Call_failed_timeout s = call_failed_timeout p s"
| "react p (On_webrtc_offer d) s = while_mounted s (on_webrtc_offer p d s)"
| "react p (On_webrtc_answer d) s = while_mounted s (on_webrtc_answer d s)"
| "react p (Await_settled i res) s = settle p i res s"
| "react p (On_webrtc_ice_candidate d) s = while_mounted s (on_webrtc_ice_candidate d s)"
| "react p (On_webrtc_call_ended d) s = while_mounted s (on_webrtc_call_ended p d s)"
| "react p (Pc_track played) s = with_pc s (ontrack played s)"
| "react p (Pc_icecandidate ev) s = with_pc s (onicecandidate p ev s)"
| "react p (Pc_connectionstatechange st) s = with_pc s (onconnectionstatechange p st s)"
| "react p (Pc_negotiationneeded created sld_ok) s = with_pc s (onnegotiationneeded p created sld_ok s)"

fun play :: "props \<Rightarrow> client_event list \<Rightarrow> session \<Rightarrow> session" where
  "play p [] s = s"
| "play p (e # es) s = play p es (react p e s)"

text \<open>Sample values for the concrete runs below.\<close>

definition sample_props :: props where
  "sample_props =
     \<lparr> userId = ''A'', userName = ''Ann'', friendId = ''B'', friendName = ''Bob'',
       chatId = ''chat1'', isInitiator = True, callType = Video \<rparr>"

definition sample_stream :: "track list" where
  "sample_stream =
     [\<lparr> track_id = 1, track_kind = Audio, track_enabled = True, track_ended = False \<rparr>,
      \<lparr> track_id = 2, track_kind = Video, track_enabled = True, track_ended = False \<rparr>]"


definition in_call :: session where
  "in_call = play sample_props [Mount, Media_settled (Some sample_stream) (Some ''offer1'') True]
               (initial_session sample_props)"

subsection \<open>What is observed of a session\<close>

text \<open>
  \<open>ice_calls\<close> is the log of \<^verbatim>\<open>addIceCandidate\<close> calls of the session's peer
  connection, \<open>applied\<close> the candidates in it, and \<open>calls_ok\<close> says that every one
  of these calls found a remote description in place.
\<close>

definition ice_calls :: "session \<Rightarrow> (candidate \<times> bool) list" where
  "ice_calls s = (case peerConnectionRef s of None \<Rightarrow> [] | Some pc \<Rightarrow> addIceCandidate_calls pc)"

definition applied :: "session \<Rightarrow> candidate list" where
  "applied s = map fst (ice_calls s)"







text \<open>
  The signaling messages of a call are its offers, answers and ICE candidates;
  \<^verbatim>\<open>webrtc_call_ended\<close> only announces the end.
\<close>

fun is_signaling :: "client_emit \<Rightarrow> bool" where
  "is_signaling (Emit_webrtc_offer d) = True"
| "is_signaling (Emit_webrtc_answer d) = True"
| "is_signaling (Emit_webrtc_ice_candidate d) = True"
| "is_signaling (Emit_webrtc_call_ended d) = False"

definition signaling_sent :: "session \<Rightarrow> client_emit list" where
  "signaling_sent s = filter is_signaling (emitted s)"

text \<open>
  Phases of the start-up: before the mount; while \<^verbatim>\<open>getUserMedia\<close> is pending;
  afterwards. \<open>no_call\<close> is the state left by a failed acquisition: no peer
  connection, nothing pending, no signaling message sent. No listener run is
  suspended in any of these, as a run starts only when a peer connection exists.
\<close>

definition not_started :: "session \<Rightarrow> bool" where
  "not_started s \<longleftrightarrow>
     peerConnectionRef s = None \<and> \<not> media_pending s \<and> lifecycle s = Not_mounted
     \<and> awaiting s = [] \<and> signaling_sent s = []"

definition waiting :: "session \<Rightarrow> bool" where
  "waiting s \<longleftrightarrow>
     peerConnectionRef s = None \<and> media_pending s \<and> lifecycle s \<noteq> Not_mounted
     \<and> awaiting s = [] \<and> signaling_sent s = []"

definition settled :: "session \<Rightarrow> bool" where
  "settled s \<longleftrightarrow> \<not> media_pending s \<and> lifecycle s \<noteq> Not_mounted"

definition no_call :: "session \<Rightarrow> bool" where
  "no_call s \<longleftrightarrow>
     peerConnectionRef s = None \<and> \<not> media_pending s \<and> lifecycle s \<noteq> Not_mounted
     \<and> awaiting s = [] \<and> signaling_sent s = []"



text \<open>
  More sample values: a caller with queued candidates, a caller whose offer was
  answered, and a callee with queued candidates before the offer reaches it.
\<close>

definition sample_answer :: webrtc_answer_data where
  "sample_answer =
     \<lparr> answer_to = ''A'', answer_from = ''B'',
       answer_answer = \<lparr> desc_type = Answer, desc_sdp = ''answer1'' \<rparr>, answer_chatId = ''chat1'' \<rparr>"

definition sample_ice :: "candidate \<Rightarrow> string \<Rightarrow> webrtc_ice_candidate_data" where
  "sample_ice c chat = \<lparr> ice_to = ''A'', ice_candidate = c, ice_chatId = chat \<rparr>"

definition ringing_with_queue :: session where
  "ringing_with_queue =
     play sample_props [On_webrtc_ice_candidate (sample_ice ''cand1'' ''chat1''),
                        On_webrtc_ice_candidate (sample_ice ''cand2'' ''chat1'')] in_call"

definition answered :: session where
  "answered = play sample_props [On_webrtc_answer sample_answer, Await_settled 0 (Fulfilled '''')] in_call"




section \<open>Properties of the presence registry and the router\<close>

subsection \<open>Auxiliary facts\<close>

lemma run_append: "run (xs @ ys) cfg = run ys (run xs cfg)"
  by (induction xs arbitrary: cfg) (auto split: prod.splits)

lemma serve_snoc: "fst (serve (tr @ [e])) = fst (handle e (fst (serve tr)))"
  by (cases "run tr (server_init, [])") (simp add: serve_def run_append split: prod.splits)

lemma announcements_append: "announcements (xs @ ys) = announcements xs @ announcements ys"
  by (induction xs rule: announcements.induct) auto

lemma closed_append: "closed (xs @ ys) = closed xs @ closed ys"
  by (induction xs rule: closed.induct) auto

lemma live_iff: "s \<in> live_connections tr u \<longleftrightarrow> (s, u) \<in> set (announcements tr) \<and> s \<notin> set (closed tr)"
  by (force simp: live_connections_def)

lemma silent_snoc: "silent_after_close (tr @ [e]) \<Longrightarrow> silent_after_close tr \<and> socket_of e \<notin> set (closed tr)"
  by (induction tr rule: silent_after_close.induct) auto

lemma one_identity_snoc: "one_identity (tr @ [e]) \<Longrightarrow> one_identity tr"
  unfolding one_identity_def announcements_append by fastforce

lemma set_set_add: "set (set_add x xs) = insert x (set xs)"
  by (auto simp: set_add_def)

lemma set_set_delete: "set (set_delete x xs) = set xs - {x}"
  by (auto simp: set_delete_def)

lemma set_add_nonempty: "set_add x xs \<noteq> []"
  by (auto simp: set_add_def)

lemma nonempty_user_join: "nonempty_entries st \<Longrightarrow> nonempty_entries (fst (user_join sid uid ok st))"
  by (auto simp: nonempty_entries_def user_join_def Let_def set_add_nonempty)

lemma nonempty_disconnect: "nonempty_entries st \<Longrightarrow> nonempty_entries (fst (disconnect sid ok st))"
  by (auto simp: nonempty_entries_def disconnect_def Let_def split: option.splits)

lemma nonempty_handle: "nonempty_entries st \<Longrightarrow> nonempty_entries (fst (handle e st))"
  by (cases e) (simp_all add: nonempty_user_join nonempty_disconnect)

lemma nonempty_serve: "nonempty_entries (fst (serve tr))"
proof (induction tr rule: rev_induct)
  case Nil
  show ?case by (simp add: serve_def nonempty_entries_def server_init_def)
next
  case (snoc e tr)
  then show ?case by (simp add: serve_snoc nonempty_handle)
qed

lemma agrees_user_join:
  assumes ag: "agrees tr st" and one: "one_identity (tr @ [User_join sid uid ok])"
    and sil: "sid \<notin> set (closed tr)"
  shows "agrees (tr @ [User_join sid uid ok]) (fst (user_join sid uid ok st))"
proof -
  let ?tr' = "tr @ [User_join sid uid ok]"
  have ann: "set (announcements ?tr') = insert (sid, uid) (set (announcements tr))"
    by (simp add: announcements_append)
  have cl: "closed ?tr' = closed tr"
    by (simp add: closed_append)
  have uniq: "\<And>u. (sid, u) \<in> set (announcements tr) \<Longrightarrow> u = uid"
    using one unfolding one_identity_def ann by fastforce
  have live: "\<And>s u. s \<in> live_connections ?tr' u \<longleftrightarrow> (s = sid \<and> u = uid) \<or> s \<in> live_connections tr u"
    using sil by (auto simp: live_iff ann cl)
  have us: "\<And>s u. userSockets (fst (user_join sid uid ok st)) s = Some u \<longleftrightarrow> s \<in> live_connections ?tr' u"
    using ag uniq unfolding live by (auto simp: user_join_def Let_def agrees_def live_iff)
  have lk: "\<And>u. set (lookup (fst (user_join sid uid ok st)) u) = live_connections ?tr' u"
  proof -
    fix u
    show "set (lookup (fst (user_join sid uid ok st)) u) = live_connections ?tr' u"
    proof (cases "u = uid")
      case True
      have "set (lookup (fst (user_join sid uid ok st)) uid) = insert sid (set (lookup st uid))"
        by (auto simp: user_join_def Let_def lookup_def set_set_add split: option.splits)
      with True ag show ?thesis using live by (auto simp: agrees_def)
    next
      case False
      then have "lookup (fst (user_join sid uid ok st)) u = lookup st u"
        by (auto simp: user_join_def Let_def lookup_def split: option.splits)
      with False ag show ?thesis using live by (auto simp: agrees_def)
    qed
  qed
  show ?thesis unfolding agrees_def using us lk by blast
qed

lemma agrees_disconnect:
  assumes ag: "agrees tr st" and one: "one_identity tr"
  shows "agrees (tr @ [Disconnect sid ok]) (fst (disconnect sid ok st))"
proof -
  let ?tr' = "tr @ [Disconnect sid ok]"
  have ann: "announcements ?tr' = announcements tr"
    by (simp add: announcements_append)
  have cl: "set (closed ?tr') = insert sid (set (closed tr))"
    by (simp add: closed_append)
  have live: "\<And>u. live_connections ?tr' u = live_connections tr u - {sid}"
    by (auto simp: live_iff ann cl)
  show ?thesis
  proof (cases "userSockets st sid")
    case None
    have no: "\<And>u. sid \<notin> live_connections tr u"
    proof
      fix u assume "sid \<in> live_connections tr u"
      with ag have "userSockets st sid = Some u" unfolding agrees_def by blast
      with None show False by simp
    qed
    have same: "fst (disconnect sid ok st) = st"
      using None by (simp add: disconnect_def)
    show ?thesis unfolding agrees_def same live using ag no by (auto simp: agrees_def)
  next
    case (Some uid)
    then have lv: "sid \<in> live_connections tr uid"
      using ag by (auto simp: agrees_def)
    then have mem: "(sid, uid) \<in> set (announcements tr)"
      by (simp add: live_iff)
    then have tr: "truthy uid"
      using one unfolding one_identity_def by fastforce
    have uniq: "\<And>u. sid \<in> live_connections tr u \<Longrightarrow> u = uid"
      using one mem unfolding one_identity_def live_iff by fastforce
    from lv ag have "sid \<in> set (lookup st uid)"
      by (auto simp: agrees_def)
    then obtain conns where conns: "onlineUsers st uid = Some conns" "sid \<in> set conns"
      by (cases "onlineUsers st uid") (auto simp: lookup_def)
    have us: "userSockets (fst (disconnect sid ok st)) = (userSockets st)(sid := None)"
      using Some tr conns by (simp add: disconnect_def Let_def)
    have "set (lookup (fst (disconnect sid ok st)) uid) = set (set_delete sid conns)"
      using Some tr conns by (simp add: disconnect_def Let_def lookup_def)
    then have lk_uid: "set (lookup (fst (disconnect sid ok st)) uid) = set conns - {sid}"
      by (simp add: set_set_delete)
    have lk_other: "\<And>u. u \<noteq> uid \<Longrightarrow> lookup (fst (disconnect sid ok st)) u = lookup st u"
      using Some tr conns by (auto simp: disconnect_def Let_def lookup_def)
    have a: "\<And>s u. userSockets (fst (disconnect sid ok st)) s = Some u \<longleftrightarrow> s \<in> live_connections ?tr' u"
      unfolding us live using ag by (auto simp: agrees_def)
    have b: "\<And>u. set (lookup (fst (disconnect sid ok st)) u) = live_connections ?tr' u"
    proof -
      fix u
      show "set (lookup (fst (disconnect sid ok st)) u) = live_connections ?tr' u"
      proof (cases "u = uid")
        case True
        have "set conns = live_connections tr uid"
          using ag conns by (auto simp: agrees_def lookup_def dest: spec [of _ uid])
        with True lk_uid show ?thesis by (simp add: live)
      next
        case False
        then have "sid \<notin> live_connections tr u" using uniq by blast
        with False lk_other ag show ?thesis by (auto simp: live agrees_def)
      qed
    qed
    show ?thesis unfolding agrees_def using a b by blast
  qed
qed

lemma agrees_serve:
  "one_identity tr \<Longrightarrow> silent_after_close tr \<Longrightarrow> agrees tr (fst (serve tr))"
proof (induction tr rule: rev_induct)
  case Nil
  show ?case
    by (simp add: serve_def agrees_def server_init_def lookup_def live_connections_def)
next
  case (snoc e tr)
  from snoc.prems have one: "one_identity tr" and sil: "silent_after_close tr"
    and fresh: "socket_of e \<notin> set (closed tr)"
    using one_identity_snoc silent_snoc by blast+
  with snoc.IH have ag: "agrees tr (fst (serve tr))" by simp
  show ?case
  proof (cases e)
    case (User_join sid uid ok)
    with ag snoc.prems fresh show ?thesis
      by (simp add: serve_snoc agrees_user_join)
  next
    case (Disconnect sid ok)
    with ag one show ?thesis
      by (simp add: serve_snoc agrees_disconnect)
  next
    case (Webrtc_offer sid d)
    with ag show ?thesis
      by (simp add: serve_snoc agrees_def live_connections_def announcements_append closed_append)
  next
    case (Webrtc_answer sid d)
    with ag show ?thesis
      by (simp add: serve_snoc agrees_def live_connections_def announcements_append closed_append)
  next
    case (Webrtc_ice_candidate sid d)
    with ag show ?thesis
      by (simp add: serve_snoc agrees_def live_connections_def announcements_append closed_append)
  next
    case (Webrtc_call_ended sid d)
    with ag show ?thesis
      by (simp add: serve_snoc agrees_def live_connections_def announcements_append closed_append)
  qed
qed

lemma two_tabs_eq:
  "two_tabs = \<lparr> onlineUsers = [''B'' \<mapsto> [''c2'', ''c3'']],
                userSockets = [''c2'' \<mapsto> ''B'', ''c3'' \<mapsto> ''B''] \<rparr>"
  by (simp add: two_tabs_def serve_def user_join_def server_init_def set_add_def Let_def)

subsection \<open>Presence invariant\<close>

text \<open>
  Claim C1, as stated, asks that after every sequence of \<^verbatim>\<open>user_join\<close> and
  \<^verbatim>\<open>disconnect\<close> events a user id is a key of \<^verbatim>\<open>onlineUsers\<close> exactly when it has a
  live connection. A connection that announces two user ids breaks this:
  \<^verbatim>\<open>userSockets\<close> keeps the last one only, so \<^verbatim>\<open>disconnect\<close> clears the socket id
  from the last user's set and the first user keeps a closed connection.
\<close>

theorem stale_entry_counterexample:
  "onlineUsers (fst (serve [User_join ''s1'' ''A'' True, User_join ''s1'' ''B'' True,
                            Disconnect ''s1'' True])) ''A'' = Some [''s1'']
   \<and> live_connections [User_join ''s1'' ''A'' True, User_join ''s1'' ''B'' True,
                        Disconnect ''s1'' True] ''A'' = {}"
  by (simp add: serve_def user_join_def disconnect_def server_init_def set_add_def
      set_delete_def truthy_def live_connections_def Let_def)

text \<open>
  Claim C1, amended. After every sequence of events no key of \<^verbatim>\<open>onlineUsers\<close> is
  mapped to an empty set. If moreover every connection announces one truthy user
  id only and nothing arrives on a closed connection, then a user id is a key of
  \<^verbatim>\<open>onlineUsers\<close> exactly when it has a live connection, and its registered set is
  exactly the set of its live connections.
\<close>

theorem presence_invariant:
  "(\<forall>u. onlineUsers (fst (serve tr)) u \<noteq> Some [])
   \<and> (one_identity tr \<and> silent_after_close tr \<longrightarrow>
        (\<forall>u. (onlineUsers (fst (serve tr)) u \<noteq> None) = (live_connections tr u \<noteq> {})
           \<and> set (lookup (fst (serve tr)) u) = live_connections tr u))"
proof -
  have ne: "nonempty_entries (fst (serve tr))" by (rule nonempty_serve)
  then have a: "\<forall>u. onlineUsers (fst (serve tr)) u \<noteq> Some []"
    by (auto simp: nonempty_entries_def)
  have b: "\<forall>u. (onlineUsers (fst (serve tr)) u \<noteq> None) = (live_connections tr u \<noteq> {})
           \<and> set (lookup (fst (serve tr)) u) = live_connections tr u"
    if "one_identity tr" "silent_after_close tr"
  proof
    fix u
    from that have ag: "agrees tr (fst (serve tr))" by (rule agrees_serve)
    then have eq: "set (lookup (fst (serve tr)) u) = live_connections tr u"
      by (simp add: agrees_def)
    have "(onlineUsers (fst (serve tr)) u \<noteq> None) = (lookup (fst (serve tr)) u \<noteq> [])"
      using a by (auto simp: lookup_def split: option.splits)
    with eq show "(onlineUsers (fst (serve tr)) u \<noteq> None) = (live_connections tr u \<noteq> {})
           \<and> set (lookup (fst (serve tr)) u) = live_connections tr u"
      by (metis set_empty)
  qed
  from a b show ?thesis by blast
qed

theorem presence_invariant_witness:
  "one_identity [User_join ''s1'' ''A'' True, User_join ''s2'' ''A'' True, Disconnect ''s1'' True]
   \<and> silent_after_close [User_join ''s1'' ''A'' True, User_join ''s2'' ''A'' True, Disconnect ''s1'' True]
   \<and> set (lookup (fst (serve [User_join ''s1'' ''A'' True, User_join ''s2'' ''A'' True,
                               Disconnect ''s1'' True])) ''A'') = {''s2''}
   \<and> live_connections [User_join ''s1'' ''A'' True, User_join ''s2'' ''A'' True,
                        Disconnect ''s1'' True] ''A'' = {''s2''}"
proof -
  let ?tr = "[User_join ''s1'' ''A'' True, User_join ''s2'' ''A'' True, Disconnect ''s1'' True]"
  have one: "one_identity ?tr" by (simp add: one_identity_def truthy_def)
  have sil: "silent_after_close ?tr" by simp
  have live: "live_connections ?tr ''A'' = {''s2''}" by (simp add: live_connections_def)
  from presence_invariant [of ?tr] one sil
  have "set (lookup (fst (serve ?tr)) ''A'') = live_connections ?tr ''A''" by blast
  with one sil live show ?thesis by simp
qed

subsection \<open>Routing\<close>

text \<open>
  Claim C3. Whenever the recipient's registered set is not empty, \<^verbatim>\<open>webrtc_offer\<close>,
  \<^verbatim>\<open>webrtc_answer\<close> and \<^verbatim>\<open>webrtc_ice_candidate\<close> are forwarded unchanged by one emit
  call, to the first connection of that set, and \<^verbatim>\<open>webrtc_call_ended\<close> is
  forwarded unchanged to every connection of the set, in order.
\<close>

theorem forward_targets:
  assumes "lookup st (to_user d) \<noteq> []"
  shows "webrtc_offer sid d st = [(To_socket (hd (lookup st (to_user d))), Msg_webrtc_offer d)]
       \<and> webrtc_answer sid d st = [(To_socket (hd (lookup st (to_user d))), Msg_webrtc_answer d)]
       \<and> webrtc_ice_candidate sid d st
           = [(To_socket (hd (lookup st (to_user d))), Msg_webrtc_ice_candidate d)]
       \<and> webrtc_call_ended sid d st
           = map (\<lambda>c. (To_socket c, Msg_webrtc_call_ended d)) (lookup st (to_user d))"
proof -
  from assms obtain c cs where "onlineUsers st (to_user d) = Some (c # cs)"
    by (cases "onlineUsers st (to_user d)"; cases "lookup st (to_user d)") (auto simp: lookup_def)
  then show ?thesis
    by (simp add: lookup_def webrtc_offer_def webrtc_answer_def webrtc_ice_candidate_def
        webrtc_call_ended_def)
qed

theorem forward_targets_witness:
  "lookup two_tabs (to_user sample_data) \<noteq> []
   \<and> webrtc_offer ''c1'' sample_data two_tabs = [(To_socket ''c2'', Msg_webrtc_offer sample_data)]
   \<and> webrtc_answer ''c1'' sample_data two_tabs = [(To_socket ''c2'', Msg_webrtc_answer sample_data)]
   \<and> webrtc_ice_candidate ''c1'' sample_data two_tabs = [(To_socket ''c2'', Msg_webrtc_ice_candidate sample_data)]
   \<and> webrtc_call_ended ''c1'' sample_data two_tabs
       = [(To_socket ''c2'', Msg_webrtc_call_ended sample_data), (To_socket ''c3'', Msg_webrtc_call_ended sample_data)]"
proof -
  have lk: "lookup two_tabs (to_user sample_data) = [''c2'', ''c3'']"
    by (simp add: lookup_def two_tabs_eq sample_data_def)
  then have ne: "lookup two_tabs (to_user sample_data) \<noteq> []" by simp
  from forward_targets [OF ne, of "''c1''"] lk ne show ?thesis by simp
qed

text \<open>
  Claim C2, as stated, asks for a \<^verbatim>\<open>call_failed\<close> with reason "recipient
  unreachable" for every kind of signaling message whose recipient has no
  connection. Only the offer handler has that branch, and its reason is another
  string; the answer handler's \<^verbatim>\<open>else\<close> only logs, the other two have none.
\<close>

theorem silent_drop_counterexample:
  "webrtc_answer ''c1'' sample_data server_init = []
   \<and> webrtc_ice_candidate ''c1'' sample_data server_init = []
   \<and> webrtc_call_ended ''c1'' sample_data server_init = []
   \<and> webrtc_offer ''c1'' sample_data server_init \<noteq> [(To_sender ''c1'', Call_failed ''recipient unreachable'')]"
  by (simp add: webrtc_answer_def webrtc_ice_candidate_def webrtc_call_ended_def
      webrtc_offer_def server_init_def)

text \<open>
  Claim C2, amended. If the recipient's registered set is empty, nothing is
  forwarded; an offer is answered by the single emit \<^verbatim>\<open>call_failed\<close> with reason
  "User is offline" on the sender's own connection, while an answer, an ICE
  candidate and a call-ended message are dropped without any emit. No handler
  changes the server state (nothing is queued or retried), and \<^verbatim>\<open>call_failed\<close> is
  emitted in no other case.
\<close>

theorem unreachable_recipient:
  "(lookup st (to_user d) = [] \<longrightarrow>
       handle (Webrtc_offer sid d) st = (st, [(To_sender sid, Call_failed ''User is offline'')])
     \<and> handle (Webrtc_answer sid d) st = (st, [])
     \<and> handle (Webrtc_ice_candidate sid d) st = (st, [])
     \<and> handle (Webrtc_call_ended sid d) st = (st, []))
   \<and> (lookup st (to_user d) \<noteq> [] \<longrightarrow>
       filter is_call_failed (snd (handle (Webrtc_offer sid d) st)) = [])
   \<and> filter is_call_failed (snd (handle (Webrtc_answer sid d) st)) = []
   \<and> filter is_call_failed (snd (handle (Webrtc_ice_candidate sid d) st)) = []
   \<and> filter is_call_failed (snd (handle (Webrtc_call_ended sid d) st)) = []"
  by (cases "onlineUsers st (to_user d)"; cases "lookup st (to_user d)")
     (auto simp: lookup_def webrtc_offer_def webrtc_answer_def webrtc_ice_candidate_def
        webrtc_call_ended_def)

theorem unreachable_recipient_witness:
  "lookup server_init (to_user sample_data) = []
   \<and> handle (Webrtc_offer ''c1'' sample_data) server_init
       = (server_init, [(To_sender ''c1'', Call_failed ''User is offline'')])
   \<and> handle (Webrtc_answer ''c1'' sample_data) server_init = (server_init, [])
   \<and> lookup two_tabs (to_user sample_data) \<noteq> []
   \<and> filter is_call_failed (snd (handle (Webrtc_offer ''c1'' sample_data) two_tabs)) = []"
proof -
  have e: "lookup server_init (to_user sample_data) = []"
    by (simp add: lookup_def server_init_def)
  have ne: "lookup two_tabs (to_user sample_data) \<noteq> []"
    by (simp add: lookup_def two_tabs_eq sample_data_def)
  from unreachable_recipient [of server_init sample_data "''c1''"] unreachable_recipient [of two_tabs sample_data "''c1''"] e ne
  show ?thesis by blast
qed

subsection \<open>Offer to an offline user\<close>

text \<open>
  Claim C4, as stated, speaks of a user B without live connections. The handler
  looks at the registered set of B, and a closed connection can stay registered:
  below, s1 announces B and then X and disconnects, which clears it from the set
  of X only. B has no live connection, A has the single connection c1, and the
  offer of A is emitted to the closed s1, without any \<^verbatim>\<open>call_failed\<close>.
\<close>

theorem stale_recipient_counterexample:
  "live_connections [User_join ''s1'' ''B'' True, User_join ''s1'' ''X'' True,
                     Disconnect ''s1'' True, User_join ''c1'' ''A'' True] ''B'' = {}
   \<and> live_connections [User_join ''s1'' ''B'' True, User_join ''s1'' ''X'' True,
                        Disconnect ''s1'' True, User_join ''c1'' ''A'' True] ''A'' = {''c1''}
   \<and> webrtc_offer ''c1'' sample_data
        (fst (serve [User_join ''s1'' ''B'' True, User_join ''s1'' ''X'' True,
                     Disconnect ''s1'' True, User_join ''c1'' ''A'' True]))
      = [(To_socket ''s1'', Msg_webrtc_offer sample_data)]"
  by (simp add: serve_def user_join_def disconnect_def server_init_def set_add_def
      set_delete_def truthy_def live_connections_def webrtc_offer_def sample_data_def Let_def)

text \<open>
  Claim C4, amended. When \<^verbatim>\<open>webrtc_offer\<close> arrives on a connection c1 for a user B
  whose registered set is empty (no entry in \<^verbatim>\<open>onlineUsers\<close>, or an empty one), the
  server's only emit call is \<^verbatim>\<open>call_failed\<close> with reason "User is offline" on c1
  itself, and nothing is forwarded to any connection, whatever connections the
  sender has. After every sequence of events in which every connection announces
  one user id only, a non-empty one, and nothing arrives on a connection after
  its disconnect, a user B without live connections has an empty registered set,
  so that the same holds of an offer for B.
\<close>

theorem offer_to_offline_user:
  "(lookup st (to_user d) = [] \<longrightarrow>
      webrtc_offer c1 d st = [(To_sender c1, Call_failed ''User is offline'')]
      \<and> forwards (webrtc_offer c1 d st) = [])
   \<and> (one_identity tr \<and> silent_after_close tr \<and> live_connections tr (to_user d) = {} \<longrightarrow>
      lookup (fst (serve tr)) (to_user d) = []
      \<and> webrtc_offer c1 d (fst (serve tr)) = [(To_sender c1, Call_failed ''User is offline'')]
      \<and> forwards (webrtc_offer c1 d (fst (serve tr))) = [])"
proof -
  have a: "webrtc_offer c1 d st = [(To_sender c1, Call_failed ''User is offline'')]
      \<and> forwards (webrtc_offer c1 d st) = []"
    if "lookup st (to_user d) = []" for st
    using that
    by (cases "onlineUsers st (to_user d)"; cases "lookup st (to_user d)")
       (auto simp: lookup_def webrtc_offer_def forwards_def)
  have b: "lookup (fst (serve tr)) (to_user d) = []"
    if "one_identity tr" "silent_after_close tr" "live_connections tr (to_user d) = {}"
  proof -
    from that(1,2) have "agrees tr (fst (serve tr))" by (rule agrees_serve)
    then have "set (lookup (fst (serve tr)) (to_user d)) = live_connections tr (to_user d)"
      by (simp add: agrees_def)
    with that(3) show ?thesis by simp
  qed
  from a [of st] a [of "fst (serve tr)"] b show ?thesis by blast
qed

theorem offer_to_offline_user_witness:
  "lookup (fst (serve [User_join ''c1'' ''A'' True])) (to_user sample_data) = []
   \<and> one_identity [User_join ''s1'' ''B'' True, Disconnect ''s1'' True, User_join ''c1'' ''A'' True]
   \<and> silent_after_close [User_join ''s1'' ''B'' True, Disconnect ''s1'' True, User_join ''c1'' ''A'' True]
   \<and> live_connections [User_join ''s1'' ''B'' True, Disconnect ''s1'' True,
                        User_join ''c1'' ''A'' True] (to_user sample_data) = {}
   \<and> webrtc_offer ''c1'' sample_data (fst (serve [User_join ''c1'' ''A'' True]))
       = [(To_sender ''c1'', Call_failed ''User is offline'')]
   \<and> webrtc_offer ''c1'' sample_data
        (fst (serve [User_join ''s1'' ''B'' True, Disconnect ''s1'' True, User_join ''c1'' ''A'' True]))
       = [(To_sender ''c1'', Call_failed ''User is offline'')]
   \<and> forwards (webrtc_offer ''c1'' sample_data
        (fst (serve [User_join ''s1'' ''B'' True, Disconnect ''s1'' True, User_join ''c1'' ''A'' True])))
       = []"
proof -
  let ?st = "fst (serve [User_join ''c1'' ''A'' True])"
  let ?tr = "[User_join ''s1'' ''B'' True, Disconnect ''s1'' True, User_join ''c1'' ''A'' True]"
  have h1: "lookup ?st (to_user sample_data) = []"
    by (simp add: serve_def user_join_def server_init_def set_add_def lookup_def sample_data_def
        Let_def)
  have h2: "one_identity ?tr" by (simp add: one_identity_def truthy_def)
  have h3: "silent_after_close ?tr" by simp
  have h4: "live_connections ?tr (to_user sample_data) = {}"
    by (simp add: live_connections_def sample_data_def)
  from offer_to_offline_user [of ?st sample_data "''c1''" ?tr] h1 h2 h3 h4
  show ?thesis by blast
qed

subsection \<open>Status broadcasts\<close>

text \<open>
  Claim C5, as stated, ties the online broadcast to the count going from zero to
  one. The handler tests the size after the insertion and broadcasts inside the
  \<^verbatim>\<open>try\<close> that follows the awaited database write: a connection that announces the
  same user twice is counted once and broadcasts twice, and a first connection
  whose database write is rejected broadcasts nothing.
\<close>

theorem online_rebroadcast_counterexample:
  "snd (serve [User_join ''s1'' ''A'' True, User_join ''s1'' ''A'' True])
     = [(Broadcast_from ''s1'', User_status_change ''A'' Online),
        (Broadcast_from ''s1'', User_status_change ''A'' Online)]
   \<and> conn_count (fst (serve [User_join ''s1'' ''A'' True])) ''A'' = 1
   \<and> conn_count (fst (serve [User_join ''s1'' ''A'' True, User_join ''s1'' ''A'' True])) ''A'' = 1
   \<and> snd (serve [User_join ''s1'' ''A'' False]) = []
   \<and> conn_count (fst (serve [User_join ''s1'' ''A'' False])) ''A'' = 1"
  by (simp add: serve_def user_join_def server_init_def set_add_def conn_count_def lookup_def Let_def)

text \<open>
  Claim C5, amended. Each sentence is about one run of a handler. Registering a
  connection for a user whose registered set holds another connection emits no
  broadcast. Registering a connection for a user whose registered set is empty
  brings the count to one and emits the online broadcast once if the database
  write succeeds, and nothing if it fails. Deregistering a connection bound to a
  user whose registered set holds another connection emits no broadcast.
  Deregistering a connection bound to a user with a non-empty id, when that
  user's registered set is not empty and holds no other connection, removes the entry
  and emits the offline broadcast once if the database write succeeds, and
  nothing if it fails.
\<close>

theorem status_broadcasts:
  "((\<exists>c \<in> set (lookup st uid). c \<noteq> sid) \<longrightarrow>
       snd (user_join sid uid ok st) = [])
   \<and> (lookup st uid = [] \<longrightarrow>
       conn_count (fst (user_join sid uid ok st)) uid = 1
       \<and> snd (user_join sid uid ok st)
           = (if ok then [(Broadcast_from sid, User_status_change uid Online)] else []))
   \<and> (userSockets st sid = Some uid \<and> (\<exists>c \<in> set (lookup st uid). c \<noteq> sid) \<longrightarrow>
       snd (disconnect sid ok st) = [])
   \<and> (userSockets st sid = Some uid \<and> truthy uid \<and> lookup st uid \<noteq> []
        \<and> set (lookup st uid) \<subseteq> {sid} \<longrightarrow>
       onlineUsers (fst (disconnect sid ok st)) uid = None
       \<and> snd (disconnect sid ok st)
           = (if ok then [(Broadcast_from sid, User_status_change uid Offline)] else []))"
proof -
  have a: "snd (user_join sid uid ok st) = []"
    if "\<exists>c \<in> set (lookup st uid). c \<noteq> sid"
  proof -
    from that obtain conns where conns: "onlineUsers st uid = Some conns"
      by (cases "onlineUsers st uid") (auto simp: lookup_def)
    with that obtain c where c: "c \<in> set conns" "c \<noteq> sid"
      by (auto simp: lookup_def)
    have "length (set_add sid conns) \<noteq> 1"
    proof (cases "sid \<in> set conns")
      case True
      with c have "{c, sid} \<subseteq> set conns" by simp
      then have "card {c, sid} \<le> card (set conns)" by (simp add: card_mono)
      with c(2) have "2 \<le> card (set conns)" by simp
      also have "card (set conns) \<le> length conns" by (rule card_length)
      finally show ?thesis using True by (simp add: set_add_def)
    next
      case False
      from c(1) have "conns \<noteq> []" by auto
      with False show ?thesis by (simp add: set_add_def)
    qed
    with conns show ?thesis
      by (simp add: user_join_def Let_def)
  qed
  have b: "conn_count (fst (user_join sid uid ok st)) uid = 1
       \<and> snd (user_join sid uid ok st)
           = (if ok then [(Broadcast_from sid, User_status_change uid Online)] else [])"
    if "lookup st uid = []"
    using that
    by (cases "onlineUsers st uid")
       (auto simp: user_join_def lookup_def set_add_def conn_count_def Let_def)
  have c: "snd (disconnect sid ok st) = []"
    if "userSockets st sid = Some uid" "\<exists>c \<in> set (lookup st uid). c \<noteq> sid"
  proof -
    from that(2) obtain conns where conns: "onlineUsers st uid = Some conns"
      by (cases "onlineUsers st uid") (auto simp: lookup_def)
    with that(2) have "set_delete sid conns \<noteq> []"
      by (auto simp: lookup_def set_delete_def filter_empty_conv)
    with that(1) conns show ?thesis
      by (simp add: disconnect_def Let_def)
  qed
  have d: "onlineUsers (fst (disconnect sid ok st)) uid = None
       \<and> snd (disconnect sid ok st)
           = (if ok then [(Broadcast_from sid, User_status_change uid Offline)] else [])"
    if "userSockets st sid = Some uid" "truthy uid" "lookup st uid \<noteq> []"
       "set (lookup st uid) \<subseteq> {sid}"
  proof -
    from that(3) obtain conns where conns: "onlineUsers st uid = Some conns"
      by (cases "onlineUsers st uid") (auto simp: lookup_def)
    with that(4) have "set_delete sid conns = []"
      by (auto simp: lookup_def set_delete_def filter_empty_conv)
    with that(1,2) conns show ?thesis
      by (simp add: disconnect_def Let_def)
  qed
  from a b c d show ?thesis by blast
qed

theorem status_broadcasts_witness:
  "(\<exists>c \<in> set (lookup two_tabs ''B''). c \<noteq> ''c4'')
   \<and> snd (user_join ''c4'' ''B'' True two_tabs) = []
   \<and> (\<exists>c \<in> set (lookup two_tabs ''B''). c \<noteq> ''c2'')
   \<and> snd (user_join ''c2'' ''B'' True two_tabs) = []
   \<and> lookup two_tabs ''A'' = []
   \<and> snd (user_join ''c1'' ''A'' True two_tabs) = [(Broadcast_from ''c1'', User_status_change ''A'' Online)]
   \<and> userSockets two_tabs ''c2'' = Some ''B''
   \<and> snd (disconnect ''c2'' True two_tabs) = []
   \<and> userSockets (fst (disconnect ''c2'' True two_tabs)) ''c3'' = Some ''B'' \<and> truthy ''B''
   \<and> lookup (fst (disconnect ''c2'' True two_tabs)) ''B'' \<noteq> []
   \<and> set (lookup (fst (disconnect ''c2'' True two_tabs)) ''B'') \<subseteq> {''c3''}
   \<and> snd (disconnect ''c3'' True (fst (disconnect ''c2'' True two_tabs)))
       = [(Broadcast_from ''c3'', User_status_change ''B'' Offline)]"
proof -
  let ?st1 = "fst (disconnect ''c2'' True two_tabs)"
  have h1: "\<exists>c \<in> set (lookup two_tabs ''B''). c \<noteq> ''c4''"
    by (simp add: lookup_def two_tabs_eq)
  have h2: "lookup two_tabs ''A'' = []"
    by (simp add: lookup_def two_tabs_eq)
  have h3: "userSockets two_tabs ''c2'' = Some ''B'' \<and> (\<exists>c \<in> set (lookup two_tabs ''B''). c \<noteq> ''c2'')"
    by (simp add: lookup_def two_tabs_eq)
  have h4: "userSockets ?st1 ''c3'' = Some ''B'' \<and> truthy ''B'' \<and> lookup ?st1 ''B'' \<noteq> []
            \<and> set (lookup ?st1 ''B'') \<subseteq> {''c3''}"
    by (simp add: lookup_def two_tabs_eq disconnect_def truthy_def set_delete_def Let_def)
  from status_broadcasts [of two_tabs "''B''" "''c4''" True] h1
  have r1: "snd (user_join ''c4'' ''B'' True two_tabs) = []" by blast
  from status_broadcasts [of two_tabs "''B''" "''c2''" True] h3
  have r1': "snd (user_join ''c2'' ''B'' True two_tabs) = []" by blast
  from status_broadcasts [of two_tabs "''A''" "''c1''" True] h2
  have r2: "snd (user_join ''c1'' ''A'' True two_tabs)
            = [(Broadcast_from ''c1'', User_status_change ''A'' Online)]" by simp
  from status_broadcasts [of two_tabs "''B''" "''c2''" True] h3
  have r3: "snd (disconnect ''c2'' True two_tabs) = []" by blast
  from status_broadcasts [of ?st1 "''B''" "''c3''" True] h4
  have r4: "snd (disconnect ''c3'' True ?st1)
            = [(Broadcast_from ''c3'', User_status_change ''B'' Offline)]" by simp
  from h1 h2 h3 h4 r1 r1' r2 r3 r4 show ?thesis by simp
qed

section \<open>Properties of the call session\<close>

subsection \<open>Auxiliary facts\<close>

lemma play_append: "play p (xs @ ys) s = play p ys (play p xs s)"
  by (induction xs arbitrary: s) simp_all


lemma cleanup_fields:
  "emitted (cleanup r s) = emitted s \<and> media_pending (cleanup r s) = media_pending s
   \<and> lifecycle (cleanup r s) = lifecycle s \<and> timers (cleanup r s) = timers s
   \<and> (peerConnectionRef (cleanup r s) = None) = (peerConnectionRef s = None)
   \<and> iceCandidatesQueue (cleanup r s) = iceCandidatesQueue s
   \<and> awaiting (cleanup r s) = awaiting s"
  by (cases r) (auto simp: cleanup_def Let_def split: option.splits)

lemma handleEndCall_fields:
  "signaling_sent (handleEndCall p r s) = signaling_sent s
   \<and> media_pending (handleEndCall p r s) = media_pending s
   \<and> lifecycle (handleEndCall p r s) = lifecycle s
   \<and> (peerConnectionRef (handleEndCall p r s) = None) = (peerConnectionRef s = None)
   \<and> iceCandidatesQueue (handleEndCall p r s) = iceCandidatesQueue s
   \<and> awaiting (handleEndCall p r s) = awaiting s"
  by (simp add: handleEndCall_def Let_def cleanup_fields signaling_sent_def emit_def)



lemma in_call_eq:
  "in_call =
     \<lparr> localStream = Some sample_stream, isMuted = False, isVideoOff = False,
       callStatus = Status_ringing, error = None,
       peerConnectionRef =
         Some \<lparr> signalingState = Have_local_offer, remoteDescription = None,
                localDescription = Some \<lparr> desc_type = Offer, desc_sdp = ''offer1'' \<rparr>,
                senders = [(1, Audio), (2, Video)], addIceCandidate_calls = [], close_calls = 0 \<rparr>,
       iceCandidatesQueue = [], lifecycle = Is_mounted, media_pending = False, awaiting = [],
       timers = [],
       emitted = [Emit_webrtc_offer (make_offer sample_props \<lparr> desc_type = Offer, desc_sdp = ''offer1'' \<rparr>)],
       onEndCall_calls = 0 \<rparr>"
  by (simp add: in_call_def initial_session_def sample_props_def sample_stream_def
      initializeMedia_def initializePeerConnection_def mounted_def addTrack_def
      new_RTCPeerConnection_def setLocalDescription_def emit_def ref_of_def Let_def)

lemma ringing_with_queue_eq:
  "ringing_with_queue = in_call\<lparr> iceCandidatesQueue := [''cand1'', ''cand2''] \<rparr>"
  by (simp add: ringing_with_queue_def in_call_eq while_mounted_def mounted_def
      on_webrtc_ice_candidate_def sample_ice_def)

lemma answered_eq:
  "answered =
     in_call\<lparr> peerConnectionRef :=
                 Some \<lparr> signalingState = Stable,
                        remoteDescription = Some \<lparr> desc_type = Answer, desc_sdp = ''answer1'' \<rparr>,
                        localDescription = Some \<lparr> desc_type = Offer, desc_sdp = ''offer1'' \<rparr>,
                        senders = [(1, Audio), (2, Video)], addIceCandidate_calls = [],
                        close_calls = 0 \<rparr>,
               callStatus := Status_connected \<rparr>"
  by (simp add: answered_def in_call_eq while_mounted_def mounted_def on_webrtc_answer_def
      settle_def answer_flush_def sample_answer_def setRemoteDescription_def)



subsection \<open>Events that leave the candidates alone\<close>








subsection \<open>Listener runs and the candidates\<close>

lemma settle_idle: "awaiting s = [] \<Longrightarrow> settle p i res s = s"
  by (simp add: settle_def)

lemma resume_frame:
  "resume p a res s = (s1, nxt) \<Longrightarrow>
   media_pending s1 = media_pending s \<and> lifecycle s1 = lifecycle s
   \<and> (peerConnectionRef s1 = None) = (peerConnectionRef s = None)"
  by (cases a; cases res; cases "iceCandidatesQueue s"; cases "peerConnectionRef s")
     (auto simp: offer_flush_def answer_flush_def emit_def)

lemma settle_frame:
  "media_pending (settle p i res s) = media_pending s
   \<and> lifecycle (settle p i res s) = lifecycle s
   \<and> (peerConnectionRef (settle p i res s) = None) = (peerConnectionRef s = None)"
proof (cases "i < length (awaiting s)")
  case False
  then show ?thesis by (simp add: settle_def)
next
  case True
  obtain s1 nxt where r: "resume p (awaiting s ! i) res s = (s1, nxt)"
    by (cases "resume p (awaiting s ! i) res s") auto
  from resume_frame [OF r] True r show ?thesis
    by (cases nxt) (simp_all add: settle_def)
qed















subsection \<open>A listener run that nothing interrupts\<close>








subsection \<open>Candidates, the queue and the remote description\<close>




subsection \<open>The candidate listener checks nothing but the peer connection\<close>

text \<open>
  Claim C10. Whenever a peer connection exists, the \<^verbatim>\<open>webrtc_ice_candidate\<close>
  listener applies the received candidate to it (a remote description is set) or
  queues it (none is set yet). The outcome depends on the candidate alone: the
  chat id and addressee of the message, and the chat id and friend id of the
  component, play no part.
\<close>

theorem ice_candidate_unchecked:
  assumes "peerConnectionRef s = Some pc"
  shows "(remoteDescription pc \<noteq> None \<longrightarrow>
            applied (on_webrtc_ice_candidate d s) = applied s @ [ice_candidate d]
            \<and> iceCandidatesQueue (on_webrtc_ice_candidate d s) = iceCandidatesQueue s)
       \<and> (remoteDescription pc = None \<longrightarrow>
            iceCandidatesQueue (on_webrtc_ice_candidate d s) = iceCandidatesQueue s @ [ice_candidate d]
            \<and> applied (on_webrtc_ice_candidate d s) = applied s)
       \<and> (ice_candidate d' = ice_candidate d \<longrightarrow>
            react p' (On_webrtc_ice_candidate d') s = react p (On_webrtc_ice_candidate d) s)"
  using assms
  by (auto simp: on_webrtc_ice_candidate_def applied_def ice_calls_def addIceCandidate_def
      while_mounted_def)

theorem ice_candidate_unchecked_witness:
  "applied (on_webrtc_ice_candidate (sample_ice ''cand9'' ''some other chat'') answered) = [''cand9'']
   \<and> iceCandidatesQueue (on_webrtc_ice_candidate (sample_ice ''cand9'' ''some other chat'') ringing_with_queue)
       = [''cand1'', ''cand2'', ''cand9'']
   \<and> react sample_props (On_webrtc_ice_candidate (sample_ice ''cand9'' ''some other chat'')) answered
       = react sample_props (On_webrtc_ice_candidate (sample_ice ''cand9'' ''chat1'')) answered"
proof -
  let ?pc = "\<lparr> signalingState = Stable,
                remoteDescription = Some \<lparr> desc_type = Answer, desc_sdp = ''answer1'' \<rparr>,
                localDescription = Some \<lparr> desc_type = Offer, desc_sdp = ''offer1'' \<rparr>,
                senders = [(1, Audio), (2, Video)], addIceCandidate_calls = [], close_calls = 0 \<rparr>"
  let ?before = "\<lparr> signalingState = Have_local_offer, remoteDescription = None,
                localDescription = Some \<lparr> desc_type = Offer, desc_sdp = ''offer1'' \<rparr>,
                senders = [(1, Audio), (2, Video)], addIceCandidate_calls = [], close_calls = 0 \<rparr>"
  have h1: "peerConnectionRef answered = Some ?pc"
    by (simp add: answered_eq in_call_eq)
  have h2: "peerConnectionRef ringing_with_queue = Some ?before"
    by (simp add: ringing_with_queue_eq in_call_eq)
  have e1: "applied answered = []"
    by (simp add: answered_eq in_call_eq applied_def ice_calls_def)
  have e2: "iceCandidatesQueue ringing_with_queue = [''cand1'', ''cand2'']"
    by (simp add: ringing_with_queue_eq)
  from ice_candidate_unchecked [OF h1, where d = "sample_ice ''cand9'' ''some other chat''"
         and d' = "sample_ice ''cand9'' ''chat1''" and p = sample_props and p' = sample_props] e1
  have r1: "applied (on_webrtc_ice_candidate (sample_ice ''cand9'' ''some other chat'') answered) = [''cand9'']
     \<and> react sample_props (On_webrtc_ice_candidate (sample_ice ''cand9'' ''chat1'')) answered
       = react sample_props (On_webrtc_ice_candidate (sample_ice ''cand9'' ''some other chat'')) answered"
    by (simp add: sample_ice_def)
  from ice_candidate_unchecked [OF h2, where d = "sample_ice ''cand9'' ''some other chat''"] e2
  have r2: "iceCandidatesQueue (on_webrtc_ice_candidate (sample_ice ''cand9'' ''some other chat'') ringing_with_queue)
       = [''cand1'', ''cand2'', ''cand9'']"
    by (simp add: sample_ice_def)
  from r1 r2 show ?thesis by simp
qed

subsection \<open>Failed media acquisition\<close>

lemma no_call_handleEndCall: "no_call s \<Longrightarrow> no_call (handleEndCall p r s)"
  by (simp add: no_call_def handleEndCall_fields)

lemma no_call_react: "no_call s \<Longrightarrow> no_call (react p e s)"
proof (cases e)
  case Mount
  assume "no_call s" then show ?thesis using Mount by (simp add: no_call_def)
next
  case (Media_settled media created sld_ok)
  assume "no_call s" then show ?thesis using Media_settled by (simp add: no_call_def)
next
  case Unmount
  assume "no_call s" then show ?thesis using Unmount
    by (simp add: no_call_def while_mounted_def cleanup_fields signaling_sent_def)
next
  case Hang_up
  assume "no_call s" then show ?thesis using Hang_up
    by (simp add: while_mounted_def no_call_handleEndCall)
next
  case Toggle_mute
  assume "no_call s" then show ?thesis using Toggle_mute
    by (auto simp: while_mounted_def toggleMute_def no_call_def signaling_sent_def split: option.splits)
next
  case (Toggle_video fresh_track replace_ok)
  assume "no_call s" then show ?thesis using Toggle_video
    by (auto simp: while_mounted_def toggleVideo_def no_call_def split: option.splits)
next
  case (On_call_failed reason)
  assume "no_call s" then show ?thesis using On_call_failed
    by (simp add: while_mounted_def on_call_failed_def no_call_def signaling_sent_def)
next
  case Call_failed_timeout
  assume nc: "no_call s"
  show ?thesis
  proof (cases "timers s")
    case Nil
    with nc Call_failed_timeout show ?thesis by (simp add: call_failed_timeout_def)
  next
    case (Cons r rest)
    from nc have "no_call (s\<lparr> timers := rest \<rparr>)" by (simp add: no_call_def signaling_sent_def)
    with Cons Call_failed_timeout show ?thesis
      by (simp add: call_failed_timeout_def no_call_handleEndCall)
  qed
next
  case (On_webrtc_offer d)
  assume "no_call s" then show ?thesis using On_webrtc_offer
    by (simp add: while_mounted_def on_webrtc_offer_def no_call_def)
next
  case (On_webrtc_answer d)
  assume "no_call s" then show ?thesis using On_webrtc_answer
    by (simp add: while_mounted_def on_webrtc_answer_def no_call_def)
next
  case (Await_settled i res)
  assume "no_call s" then show ?thesis using Await_settled
    by (simp add: settle_idle no_call_def)
next
  case (On_webrtc_ice_candidate d)
  assume "no_call s" then show ?thesis using On_webrtc_ice_candidate
    by (simp add: while_mounted_def on_webrtc_ice_candidate_def no_call_def)
next
  case (On_webrtc_call_ended d)
  assume "no_call s" then show ?thesis using On_webrtc_call_ended
    by (simp add: while_mounted_def on_webrtc_call_ended_def no_call_handleEndCall)
next
  case (Pc_track played)
  assume "no_call s" then show ?thesis using Pc_track by (simp add: with_pc_def no_call_def)
next
  case (Pc_icecandidate ev)
  assume "no_call s" then show ?thesis using Pc_icecandidate by (simp add: with_pc_def no_call_def)
next
  case (Pc_connectionstatechange st)
  assume "no_call s" then show ?thesis using Pc_connectionstatechange
    by (simp add: with_pc_def no_call_def)
next
  case (Pc_negotiationneeded created sld_ok)
  assume "no_call s" then show ?thesis using Pc_negotiationneeded
    by (simp add: with_pc_def no_call_def)
qed

lemma no_call_play: "no_call s \<Longrightarrow> no_call (play p tr s)"
  by (induction tr arbitrary: s) (simp_all add: no_call_react)

lemma offer_frame:
  "media_pending (on_webrtc_offer p d s) = media_pending s
   \<and> lifecycle (on_webrtc_offer p d s) = lifecycle s"
  by (simp add: on_webrtc_offer_def split: option.splits)

lemma answer_frame:
  "media_pending (on_webrtc_answer d s) = media_pending s
   \<and> lifecycle (on_webrtc_answer d s) = lifecycle s"
  by (simp add: on_webrtc_answer_def split: option.splits)

lemma toggleVideo_frame:
  "media_pending (toggleVideo p fresh_track replace_ok s) = media_pending s
   \<and> lifecycle (toggleVideo p fresh_track replace_ok s) = lifecycle s"
  by (auto simp: toggleVideo_def Let_def split: option.splits)

lemma negotiation_frame:
  "media_pending (onnegotiationneeded p created sld_ok s) = media_pending s
   \<and> lifecycle (onnegotiationneeded p created sld_ok s) = lifecycle s"
  by (auto simp: onnegotiationneeded_def Let_def emit_def split: option.splits)

lemma initializeMedia_frame:
  "media_pending (initializeMedia p media created sld_ok s) = media_pending s
   \<and> lifecycle (initializeMedia p media created sld_ok s) = lifecycle s"
  by (auto simp: initializeMedia_def initializePeerConnection_def Let_def emit_def
      split: option.splits)

lemma settled_react: "settled s \<Longrightarrow> settled (react p e s)"
proof (cases e)
  case Mount
  assume "settled s" then show ?thesis using Mount by (simp add: settled_def)
next
  case (Media_settled media created sld_ok)
  assume "settled s" then show ?thesis using Media_settled by (simp add: settled_def)
next
  case Unmount
  assume "settled s" then show ?thesis using Unmount
    by (simp add: settled_def while_mounted_def cleanup_fields)
next
  case Hang_up
  assume "settled s" then show ?thesis using Hang_up
    by (simp add: settled_def while_mounted_def handleEndCall_fields)
next
  case Toggle_mute
  assume "settled s" then show ?thesis using Toggle_mute
    by (auto simp: settled_def while_mounted_def toggleMute_def split: option.splits)
next
  case (Toggle_video fresh_track replace_ok)
  assume "settled s" then show ?thesis using Toggle_video
    by (simp add: settled_def while_mounted_def toggleVideo_frame)
next
  case (On_call_failed reason)
  assume "settled s" then show ?thesis using On_call_failed
    by (simp add: settled_def while_mounted_def on_call_failed_def)
next
  case Call_failed_timeout
  assume "settled s" then show ?thesis using Call_failed_timeout
    by (cases "timers s") (simp_all add: settled_def call_failed_timeout_def handleEndCall_fields)
next
  case (On_webrtc_offer d)
  assume "settled s" then show ?thesis using On_webrtc_offer
    by (simp add: settled_def while_mounted_def offer_frame)
next
  case (On_webrtc_answer d)
  assume "settled s" then show ?thesis using On_webrtc_answer
    by (simp add: settled_def while_mounted_def answer_frame)
next
  case (Await_settled i res)
  assume "settled s" then show ?thesis using Await_settled
    by (simp add: settled_def settle_frame)
next
  case (On_webrtc_ice_candidate d)
  assume "settled s" then show ?thesis using On_webrtc_ice_candidate
    by (auto simp: settled_def while_mounted_def on_webrtc_ice_candidate_def split: option.splits)
next
  case (On_webrtc_call_ended d)
  assume "settled s" then show ?thesis using On_webrtc_call_ended
    by (simp add: settled_def while_mounted_def on_webrtc_call_ended_def handleEndCall_fields)
next
  case (Pc_track played)
  assume "settled s" then show ?thesis using Pc_track
    by (simp add: settled_def with_pc_def ontrack_def)
next
  case (Pc_icecandidate ev)
  assume "settled s" then show ?thesis using Pc_icecandidate
    by (simp add: settled_def with_pc_def onicecandidate_def emit_def split: option.splits)
next
  case (Pc_connectionstatechange st)
  assume "settled s" then show ?thesis using Pc_connectionstatechange
    by (simp add: settled_def with_pc_def onconnectionstatechange_def handleEndCall_fields)
next
  case (Pc_negotiationneeded created sld_ok)
  assume "settled s" then show ?thesis using Pc_negotiationneeded
    by (simp add: settled_def with_pc_def negotiation_frame)
qed

lemma waiting_react:
  "waiting s \<Longrightarrow> waiting (react p e s) \<or> settled (react p e s)"
proof (cases e)
  case Mount
  assume "waiting s" then show ?thesis using Mount by (simp add: waiting_def)
next
  case (Media_settled media created sld_ok)
  assume "waiting s" then show ?thesis using Media_settled
    by (simp add: waiting_def settled_def initializeMedia_frame)
next
  case Unmount
  assume "waiting s" then show ?thesis using Unmount
    by (simp add: waiting_def while_mounted_def cleanup_fields signaling_sent_def)
next
  case Hang_up
  assume "waiting s" then show ?thesis using Hang_up
    by (simp add: waiting_def while_mounted_def handleEndCall_fields)
next
  case Toggle_mute
  assume "waiting s" then show ?thesis using Toggle_mute
    by (auto simp: while_mounted_def toggleMute_def waiting_def signaling_sent_def split: option.splits)
next
  case (Toggle_video fresh_track replace_ok)
  assume "waiting s" then show ?thesis using Toggle_video
    by (auto simp: while_mounted_def toggleVideo_def waiting_def split: option.splits)
next
  case (On_call_failed reason)
  assume "waiting s" then show ?thesis using On_call_failed
    by (simp add: while_mounted_def on_call_failed_def waiting_def signaling_sent_def)
next
  case Call_failed_timeout
  assume w: "waiting s"
  show ?thesis
  proof (cases "timers s")
    case Nil
    with w Call_failed_timeout show ?thesis by (simp add: call_failed_timeout_def)
  next
    case (Cons r rest)
    from w have "waiting (s\<lparr> timers := rest \<rparr>)" by (simp add: waiting_def signaling_sent_def)
    then have "waiting (handleEndCall p r (s\<lparr> timers := rest \<rparr>))"
      by (simp add: waiting_def handleEndCall_fields)
    with Cons Call_failed_timeout show ?thesis
      by (simp add: call_failed_timeout_def)
  qed
next
  case (On_webrtc_offer d)
  assume "waiting s" then show ?thesis using On_webrtc_offer
    by (simp add: while_mounted_def on_webrtc_offer_def waiting_def)
next
  case (On_webrtc_answer d)
  assume "waiting s" then show ?thesis using On_webrtc_answer
    by (simp add: while_mounted_def on_webrtc_answer_def waiting_def)
next
  case (Await_settled i res)
  assume "waiting s" then show ?thesis using Await_settled
    by (simp add: settle_idle waiting_def)
next
  case (On_webrtc_ice_candidate d)
  assume "waiting s" then show ?thesis using On_webrtc_ice_candidate
    by (simp add: while_mounted_def on_webrtc_ice_candidate_def waiting_def)
next
  case (On_webrtc_call_ended d)
  assume "waiting s" then show ?thesis using On_webrtc_call_ended
    by (simp add: while_mounted_def on_webrtc_call_ended_def waiting_def handleEndCall_fields)
next
  case (Pc_track played)
  assume "waiting s" then show ?thesis using Pc_track by (simp add: with_pc_def waiting_def)
next
  case (Pc_icecandidate ev)
  assume "waiting s" then show ?thesis using Pc_icecandidate by (simp add: with_pc_def waiting_def)
next
  case (Pc_connectionstatechange st)
  assume "waiting s" then show ?thesis using Pc_connectionstatechange
    by (simp add: with_pc_def waiting_def)
next
  case (Pc_negotiationneeded created sld_ok)
  assume "waiting s" then show ?thesis using Pc_negotiationneeded
    by (simp add: with_pc_def waiting_def)
qed

lemma not_started_react:
  "not_started s \<Longrightarrow> not_started (react p e s) \<or> waiting (react p e s)"
proof (cases e)
  case Call_failed_timeout
  assume f: "not_started s"
  show ?thesis
  proof (cases "timers s")
    case Nil
    with f Call_failed_timeout show ?thesis by (simp add: call_failed_timeout_def)
  next
    case (Cons r rest)
    from f have "not_started (s\<lparr> timers := rest \<rparr>)" by (simp add: not_started_def signaling_sent_def)
    then have "not_started (handleEndCall p r (s\<lparr> timers := rest \<rparr>))"
      by (simp add: not_started_def handleEndCall_fields)
    with Cons Call_failed_timeout show ?thesis
      by (simp add: call_failed_timeout_def)
  qed
qed (auto simp: not_started_def waiting_def while_mounted_def with_pc_def mounted_def
      signaling_sent_def settle_idle)

lemma phases_play:
  "not_started s \<or> waiting s \<or> settled s \<Longrightarrow>
   not_started (play p tr s) \<or> waiting (play p tr s) \<or> settled (play p tr s)"
proof (induction tr arbitrary: s)
  case Nil
  then show ?case by simp
next
  case (Cons e tr)
  from Cons.prems have "not_started (react p e s) \<or> waiting (react p e s) \<or> settled (react p e s)"
    using not_started_react waiting_react settled_react by blast
  then show ?case using Cons.IH by simp
qed

lemma not_started_initial: "not_started (initial_session p)"
  by (simp add: not_started_def initial_session_def signaling_sent_def)

lemma pending_is_waiting:
  assumes "media_pending (play p tr (initial_session p))"
  shows "waiting (play p tr (initial_session p))"
proof -
  from phases_play [of "initial_session p" p tr] not_started_initial
  have "not_started (play p tr (initial_session p)) \<or> waiting (play p tr (initial_session p))
        \<or> settled (play p tr (initial_session p))" by blast
  with assms show ?thesis by (auto simp: not_started_def settled_def)
qed

text \<open>
  Claim C9. Let \<^verbatim>\<open>getUserMedia\<close> reject after any events \<open>before\<close> that left it
  pending. If the component is still mounted, the call status becomes ended and
  the error text about camera and microphone is shown. No peer connection exists
  then or after any further events, and no offer, answer or ICE candidate has
  been emitted at any point of the session.
\<close>

theorem media_failure_sends_no_signaling:
  assumes "media_pending (play p before (initial_session p))"
  shows "(mounted (play p before (initial_session p)) \<longrightarrow>
            callStatus (play p (before @ [Media_settled None created sld_ok]) (initial_session p))
              = Status_ended
            \<and> error (play p (before @ [Media_settled None created sld_ok]) (initial_session p))
              = Some media_failed)
       \<and> peerConnectionRef
            (play p (before @ Media_settled None created sld_ok # after) (initial_session p)) = None
       \<and> signaling_sent
            (play p (before @ Media_settled None created sld_ok # after) (initial_session p)) = []"
proof -
  let ?s0 = "play p before (initial_session p)"
  let ?s1 = "react p (Media_settled None created sld_ok) ?s0"
  from assms have w: "waiting ?s0" by (rule pending_is_waiting)
  then have nc: "no_call ?s1"
    by (simp add: waiting_def no_call_def initializeMedia_def signaling_sent_def)
  then have "no_call (play p after ?s1)" by (rule no_call_play)
  then have a: "peerConnectionRef (play p after ?s1) = None \<and> signaling_sent (play p after ?s1) = []"
    by (simp add: no_call_def)
  from w have b: "mounted ?s0 \<longrightarrow> callStatus ?s1 = Status_ended \<and> error ?s1 = Some media_failed"
    by (simp add: waiting_def initializeMedia_def mounted_def)
  from a b show ?thesis by (simp add: play_append)
qed

theorem media_failure_sends_no_signaling_witness:
  "media_pending (play sample_props [Mount] (initial_session sample_props))
   \<and> callStatus (play sample_props ([Mount] @ [Media_settled None (Some ''offer1'') True])
                   (initial_session sample_props)) = Status_ended
   \<and> error (play sample_props ([Mount] @ [Media_settled None (Some ''offer1'') True])
               (initial_session sample_props)) = Some media_failed
   \<and> signaling_sent
        (play sample_props
           ([Mount] @ Media_settled None (Some ''offer1'') True
              # [On_webrtc_ice_candidate (sample_ice ''cand1'' ''chat1''),
                 Pc_negotiationneeded (Some ''offer2'') True, Hang_up, Unmount])
           (initial_session sample_props)) = []"
proof -
  have h: "media_pending (play sample_props [Mount] (initial_session sample_props))"
    by (simp add: initial_session_def)
  have m: "mounted (play sample_props [Mount] (initial_session sample_props))"
    by (simp add: initial_session_def mounted_def)
  from media_failure_sends_no_signaling [OF h, of "Some ''offer1''" True
        "[On_webrtc_ice_candidate (sample_ice ''cand1'' ''chat1''),
          Pc_negotiationneeded (Some ''offer2'') True, Hang_up, Unmount]"] h m
  show ?thesis by blast
qed

subsection \<open>Video toggle and renegotiation\<close>





subsection \<open>Release of media when the call ends\<close>

text \<open>
  The handler of connection state changes never touches the local stream, in any
  state of the session and for any reported state; nor does the unmount.
\<close>

lemma connectionstatechange_keeps_localStream:
  "localStream (react p (Pc_connectionstatechange st) s) = localStream s"
  by (simp add: with_pc_def onconnectionstatechange_def handleEndCall_def cleanup_def emit_def
      Let_def split: option.splits)

lemma unmount_keeps_localStream:
  "localStream (react p Unmount s) = localStream s"
  by (simp add: while_mounted_def cleanup_def Let_def split: option.splits)

text \<open>
  Claim C8 asks that every way into the ended state stops the local tracks and
  closes the peer connection exactly once. The run below starts from a caller
  with two live local tracks. When the peer connection reports \<^verbatim>\<open>failed\<close>, the
  handler installed by \<^verbatim>\<open>initializePeerConnection\<close> calls the \<^verbatim>\<open>handleEndCall\<close> of the
  first render, whose \<^verbatim>\<open>cleanup\<close> sees \<^verbatim>\<open>localStream\<close> as \<^verbatim>\<open>null\<close>: the call is ended and
  the connection closed, but both tracks stay live, also after the unmount that
  follows. The hang-up button, by contrast, stops them. In both runs \<^verbatim>\<open>close()\<close> is
  called twice, by \<^verbatim>\<open>handleEndCall\<close> and again by the cleanup of the media effect.
\<close>

theorem peer_link_failure_leaves_tracks_live:
  "localStream (play sample_props [Pc_connectionstatechange Conn_failed, Unmount] in_call)
     = Some sample_stream
   \<and> map track_ended sample_stream = [False, False]
   \<and> callStatus (play sample_props [Pc_connectionstatechange Conn_failed, Unmount] in_call)
     = Status_ended
   \<and> map_option close_calls
        (peerConnectionRef (play sample_props [Pc_connectionstatechange Conn_failed, Unmount] in_call))
     = Some 2
   \<and> map_option (map track_ended) (localStream (play sample_props [Hang_up, Unmount] in_call))
     = Some [True, True]
   \<and> map_option close_calls (peerConnectionRef (play sample_props [Hang_up, Unmount] in_call))
     = Some 2"
  by (simp add: in_call_eq with_pc_def while_mounted_def mounted_def onconnectionstatechange_def
      handleEndCall_def cleanup_def emit_def close_def current_render_def stop_def
      sample_stream_def Let_def)


end
